theory Spec2Isabelle
  imports Main
begin

section \<open>Python strings\<close>

text \<open>
  The notebooks render integers with \<^verbatim>\<open>str\<close> (directly, and through
  an f-string field without a format spec) and title-case an enum value with
  \<^verbatim>\<open>str.title\<close>. Python's \<^verbatim>\<open>int\<close> is unbounded, so it is
  \<^typ>\<open>int\<close> here. The decimal numeral of an integer has a leading minus sign for
  a negative number.
\<close>

definition digit_char :: "nat \<Rightarrow> char" where
  "digit_char d = ''0123456789'' ! d"

fun str_nat :: "nat \<Rightarrow> string" where
  "str_nat n = (if n < 10 then [digit_char n] else str_nat (n div 10) @ [digit_char (n mod 10)])"

declare str_nat.simps [simp del]

definition decimal :: "int \<Rightarrow> string" where
  "decimal i = (if i < 0 then CHR ''-'' # str_nat (nat (- i)) else str_nat (nat i))"

text \<open>
  The notebooks ran on CPython 3.11.6, where the conversion of an \<^verbatim>\<open>int\<close> to
  a decimal string raises \<^verbatim>\<open>ValueError\<close> when the number has more digits
  (the sign not counted) than the limit, 4300 unless the interpreter is configured
  otherwise. An exception is this \<^verbatim>\<open>ValueError\<close> or one that the external
  library raised, of a type \<open>'e\<close> that is left open.
\<close>

datatype 'e exn = ValueError | Library_exn 'e

definition max_str_digits :: nat where
  "max_str_digits = 4300"

definition str_int :: "int \<Rightarrow> 'e exn + string" where
  "str_int i =
     (if max_str_digits < length (str_nat (nat \<bar>i\<bar>)) then Inl ValueError else Inr (decimal i))"

text \<open>
  Reading a decimal numeral back, for stating which text is the numeral of a number:
  the digits are read from the left, a numeral has at least one digit and no leading
  zero unless it is the single digit zero, and a minus sign stands only before a numeral
  other than zero.
\<close>

definition digit_value :: "char \<Rightarrow> nat option" where
  "digit_value c = map_of (zip ''0123456789'' [0, 1, 2, 3, 4, 5, 6, 7, 8, 9]) c"

fun value_of_digits :: "nat \<Rightarrow> string \<Rightarrow> nat option" where
  "value_of_digits acc [] = Some acc"
| "value_of_digits acc (c # cs) =
     (case digit_value c of None \<Rightarrow> None | Some d \<Rightarrow> value_of_digits (10 * acc + d) cs)"

definition nat_of_decimal :: "string \<Rightarrow> nat option" where
  "nat_of_decimal s =
     (if s = [] \<or> (hd s = CHR ''0'' \<and> s \<noteq> ''0'') then None else value_of_digits 0 s)"

definition int_of_decimal :: "string \<Rightarrow> int option" where
  "int_of_decimal s =
     (case s of
        [] \<Rightarrow> None
      | c # ds \<Rightarrow>
          (if c = CHR ''-''
           then (case nat_of_decimal ds of
                   None \<Rightarrow> None
                 | Some n \<Rightarrow> (if n = 0 then None else Some (- int n)))
           else map_option int (nat_of_decimal s)))"

text \<open>
  \<^verbatim>\<open>str.title\<close> walks the string once: a character that follows a cased
  character is lower-cased, any other character is title-cased (upper-cased, for a
  letter), and the flag is whether the character just read is cased. The letters are
  the ASCII ones; the notebooks call \<^verbatim>\<open>title\<close> on the enum values only.
\<close>

definition ascii_lowercase :: string where
  "ascii_lowercase = ''abcdefghijklmnopqrstuvwxyz''"

definition ascii_uppercase :: string where
  "ascii_uppercase = ''ABCDEFGHIJKLMNOPQRSTUVWXYZ''"

definition is_lower :: "char \<Rightarrow> bool" where
  "is_lower c = (c \<in> set ascii_lowercase)"

definition is_upper :: "char \<Rightarrow> bool" where
  "is_upper c = (c \<in> set ascii_uppercase)"

definition is_cased :: "char \<Rightarrow> bool" where
  "is_cased c = (is_lower c \<or> is_upper c)"

definition to_upper :: "char \<Rightarrow> char" where
  "to_upper c = (case map_of (zip ascii_lowercase ascii_uppercase) c of None \<Rightarrow> c | Some u \<Rightarrow> u)"

definition to_lower :: "char \<Rightarrow> char" where
  "to_lower c = (case map_of (zip ascii_uppercase ascii_lowercase) c of None \<Rightarrow> c | Some l \<Rightarrow> l)"

fun title_from :: "bool \<Rightarrow> string \<Rightarrow> string" where
  "title_from previous_is_cased [] = []"
| "title_from previous_is_cased (c # cs) =
     (if previous_is_cased then to_lower c else to_upper c) # title_from (is_cased c) cs"

definition title :: "string \<Rightarrow> string" where
  "title s = title_from False s"

text \<open>
  The reading of "first letter capitalized" that the greeting is compared with: the
  first character upper-cased, the others as they are.
\<close>

definition first_letter_capitalized :: "string \<Rightarrow> string" where
  "first_letter_capitalized s = (case s of [] \<Rightarrow> [] | c # cs \<Rightarrow> to_upper c # cs)"

section \<open>The graph of \<^verbatim>\<open>graphviz.Digraph\<close>\<close>

text \<open>
  A \<^verbatim>\<open>Digraph\<close> keeps its statements in a body, in the order of the calls:
  \<^verbatim>\<open>dot.node(name, label)\<close> appends a node statement and
  \<^verbatim>\<open>dot.edge(tail_name, head_name)\<close> an edge statement. A default
  \<^verbatim>\<open>Digraph()\<close> is not strict, so a repeated edge statement is a second edge.
\<close>

datatype stmt = Node string string | Edge string string

type_synonym digraph = "stmt list"

definition Digraph :: digraph where
  "Digraph = []"

definition node :: "string \<Rightarrow> string \<Rightarrow> digraph \<Rightarrow> digraph" where
  "node nm label dot = dot @ [Node nm label]"

definition edge :: "string \<Rightarrow> string \<Rightarrow> digraph \<Rightarrow> digraph" where
  "edge tail_name head_name dot = dot @ [Edge tail_name head_name]"

section \<open>What a cell shows\<close>

text \<open>
  The output area of a cell, as the list of things shown in order. The renderings of the
  external libraries (the \<^verbatim>\<open>repr\<close> of a dumped model, \<^verbatim>\<open>pprint\<close>,
  \<^verbatim>\<open>model_dump_json\<close>, the drawing of a graph) are not computed: an entry says
  which rendering was asked for and of which value. \<open>'v\<close> is the type of the parsed
  object the library returned.
\<close>

datatype 'v display =
    Print_str string
  | Out_model_dump 'v
  | Print_model 'v
  | Pprint_model_dump 'v
  | Print_model_dump_json 'v nat
  | Display_dot digraph

section \<open>Schema declarations\<close>

text \<open>
  A class of the notebooks derives from the external \<^verbatim>\<open>BaseModel\<close> and
  consists of annotated fields, some with a \<^verbatim>\<open>Field(...)\<close>. The
  declarations are data: the annotation of each field as a type expression, and the
  keywords of its \<^verbatim>\<open>Field\<close>. Of the keywords of \<^verbatim>\<open>Field\<close> the
  notebooks use the default (\<^verbatim>\<open>...\<close>, which only says that the field is
  required, as a field with no default is), \<^verbatim>\<open>default_factory\<close> and
  \<^verbatim>\<open>description\<close>; the length and pattern keywords are the ones through
  which a declaration would ask the library to check a string or a list.
\<close>

datatype factory = Factory_list

record field_info =
  default_factory :: "factory option"
  description :: "string option"
  min_length :: "nat option"
  max_length :: "nat option"
  pattern :: "(string \<Rightarrow> bool) option"

definition Field :: field_info where
  "Field = \<lparr>default_factory = None, description = None, min_length = None,
            max_length = None, pattern = None\<rparr>"

datatype ty =
    TInt
  | TStr
  | TDate
  | TEnum string "(string \<times> string) list"
  | TLiteral "string list"
  | TList ty
  | TIterable ty
  | TModel string "(string \<times> ty \<times> field_info) list"

subsection \<open>The classes of the tips notebook\<close>

definition House_enum :: ty where
  "House_enum = TEnum ''House''
     [(''Gryffindor'', ''gryffindor''), (''Hufflepuff'', ''hufflepuff''),
      (''Ravenclaw'', ''ravenclaw''), (''Slytherin'', ''slytherin'')]"

definition house_literal :: ty where
  "house_literal = TLiteral [''Gryffindor'', ''Hufflepuff'', ''Ravenclaw'', ''Slytherin'']"

text \<open>Classification, with the enum.\<close>

definition Character_enum_model :: ty where
  "Character_enum_model = TModel ''Character''
     [(''age'', TInt, Field), (''name'', TStr, Field), (''house'', House_enum, Field)]"

text \<open>
  Classification with the literal; the two cells of "Defining Multiple Entities" declare
  the same class again.
\<close>

definition Character_literal_model :: ty where
  "Character_literal_model = TModel ''Character''
     [(''age'', TInt, Field), (''name'', TStr, Field), (''house'', house_literal, Field)]"

text \<open>Arbitrary properties.\<close>

definition Property_model :: ty where
  "Property_model = TModel ''Property''
     [(''key'', TStr, Field\<lparr>description := Some ''Must be snake case''\<rparr>),
      (''value'', TStr, Field)]"

definition Character_properties_model :: ty where
  "Character_properties_model = TModel ''Character''
     [(''age'', TInt, Field), (''name'', TStr, Field), (''house'', house_literal, Field),
      (''properties'', TList Property_model, Field)]"

text \<open>Limiting the length of lists.\<close>

definition Property_indexed_model :: ty where
  "Property_indexed_model = TModel ''Property''
     [(''index'', TStr, Field\<lparr>description := Some ''Monotonically increasing ID''\<rparr>),
      (''key'', TStr, Field\<lparr>description := Some ''Must be snake case''\<rparr>),
      (''value'', TStr, Field)]"

definition Character_five_model :: ty where
  "Character_five_model = TModel ''Character''
     [(''age'', TInt, Field), (''name'', TStr, Field), (''house'', house_literal, Field),
      (''properties'', TList Property_indexed_model,
         Field\<lparr>description :=
           Some ''Numbered list of arbitrary extracted properties, should be exactly 5''\<rparr>)]"

text \<open>Defining relationships.\<close>

definition Character_friends_model :: ty where
  "Character_friends_model = TModel ''Character''
     [(''id'', TInt, Field), (''name'', TStr, Field), (''friends'', TList TInt, Field)]"

subsection \<open>The classes of the RAG notebook\<close>

definition Extraction_model :: ty where
  "Extraction_model = TModel ''Extraction''
     [(''topic'', TStr, Field), (''summary'', TStr, Field),
      (''hypothetical_questions'', TList TStr,
         Field\<lparr>default_factory := Some Factory_list,
               description := Some ''Hypothetical questions that this document could answer''\<rparr>),
      (''keywords'', TList TStr,
         Field\<lparr>default_factory := Some Factory_list,
               description := Some ''Keywords that this document is about''\<rparr>)]"

definition DateRange_model :: ty where
  "DateRange_model = TModel ''DateRange'' [(''start'', TDate, Field), (''end'', TDate, Field)]"

definition Query_model :: ty where
  "Query_model = TModel ''Query''
     [(''rewritten_query'', TStr, Field), (''published_daterange'', DateRange_model, Field)]"

text \<open>The second \<^verbatim>\<open>DateRange\<close> and \<^verbatim>\<open>Query\<close>, with the chain of thought.\<close>

definition DateRange_cot_model :: ty where
  "DateRange_cot_model = TModel ''DateRange''
     [(''chain_of_thought'', TStr,
         Field\<lparr>description :=
           Some ''Think step by step to plan what is the best time range to search in''\<rparr>),
      (''start'', TDate, Field), (''end'', TDate, Field)]"

definition Query_cot_model :: ty where
  "Query_cot_model = TModel ''Query''
     [(''rewritten_query'', TStr, Field), (''published_daterange'', DateRange_cot_model, Field)]"

text \<open>
  \<^verbatim>\<open>SearchClient\<close> is declared after the second \<^verbatim>\<open>DateRange\<close>, which is
  the class its annotation names.
\<close>

definition SearchClient_model :: ty where
  "SearchClient_model = TModel ''SearchClient''
     [(''query'', TStr, Field), (''keywords'', TList TStr, Field), (''email'', TStr, Field),
      (''source'', TLiteral [''gmail'', ''calendar''], Field),
      (''date_range'', DateRange_cot_model, Field)]"

definition Retrival_model :: ty where
  "Retrival_model = TModel ''Retrival'' [(''queries'', TList SearchClient_model, Field)]"

definition Question_model :: ty where
  "Question_model = TModel ''Question''
     [(''id'', TInt, Field\<lparr>description := Some ''A unique identifier for the question''\<rparr>),
      (''query'', TStr,
         Field\<lparr>description := Some ''The question decomposited as much as possible''\<rparr>),
      (''subquestions'', TList TInt,
         Field\<lparr>default_factory := Some Factory_list,
               description := Some ''The subquestions that this question is composed of''\<rparr>)]"

definition QueryPlan_model :: ty where
  "QueryPlan_model = TModel ''QueryPlan''
     [(''root_question'', TStr,
         Field\<lparr>description := Some ''The root question that the user asked''\<rparr>),
      (''plan'', TList Question_model,
         Field\<lparr>description :=
           Some ''The plan to answer the root question and its subquestions''\<rparr>)]"

section \<open>Construction of an instance\<close>

text \<open>
  What the external library does with a declaration when an instance is constructed
  from plain data: integers, strings, dates, lists and dictionaries of keyword
  arguments, as they arrive from the service or are written in a call. Instances and
  enum members are results of a construction, never arguments of one here. A
  dictionary is checked field by field in the order of the declaration: a missing field
  takes the value its \<^verbatim>\<open>default_factory\<close> makes or is an error, a present
  one is checked against its annotation and against the length and pattern keywords of
  its \<^verbatim>\<open>Field\<close>. Keys that the class does not declare are ignored. An enum
  field takes the value of a member.

  Where the library would try a conversion (a string for an \<^verbatim>\<open>int\<close>, a string
  or a number for a date), and for an \<^verbatim>\<open>Iterable\<close> annotation, which
  another library handles, the outcome is \<open>Unmodelled\<close>: nothing is said about
  it, and nothing after it is looked at.
\<close>

datatype arg =
    AInt int
  | AStr string
  | ADate int int int
  | AList "arg list"
  | ADict "(string \<times> arg) list"

datatype pyval =
    VInt int
  | VStr string
  | VDate int int int
  | VEnum string string
  | VList "pyval list"
  | VObj string "(string \<times> pyval) list"

datatype validation_error =
    Missing string
  | Wrong_type
  | Not_a_member
  | Constraint string

datatype 'a outcome = Valid 'a | Invalid validation_error | Unmodelled

fun make :: "factory \<Rightarrow> pyval" where
  "make Factory_list = VList []"

definition within :: "field_info \<Rightarrow> nat \<Rightarrow> bool" where
  "within fi n = ((case min_length fi of None \<Rightarrow> True | Some lo \<Rightarrow> lo \<le> n)
                \<and> (case max_length fi of None \<Rightarrow> True | Some hi \<Rightarrow> n \<le> hi))"

fun check_field :: "field_info \<Rightarrow> pyval \<Rightarrow> bool" where
  "check_field fi (VStr s) =
     (within fi (length s) \<and> (case pattern fi of None \<Rightarrow> True | Some p \<Rightarrow> p s))"
| "check_field fi (VList xs) = within fi (length xs)"
| "check_field fi v = True"

fun validate :: "ty \<Rightarrow> arg \<Rightarrow> pyval outcome"
  and validate_all :: "ty \<Rightarrow> arg list \<Rightarrow> pyval list outcome"
  and validate_fields ::
    "(string \<times> ty \<times> field_info) list \<Rightarrow> (string \<times> arg) list
       \<Rightarrow> (string \<times> pyval) list outcome"
where
  "validate TInt a =
     (case a of AInt i \<Rightarrow> Valid (VInt i) | AStr s \<Rightarrow> Unmodelled | _ \<Rightarrow> Invalid Wrong_type)"
| "validate TStr a = (case a of AStr s \<Rightarrow> Valid (VStr s) | _ \<Rightarrow> Invalid Wrong_type)"
| "validate TDate a =
     (case a of
        ADate y m d \<Rightarrow> Valid (VDate y m d)
      | AStr s \<Rightarrow> Unmodelled
      | AInt i \<Rightarrow> Unmodelled
      | _ \<Rightarrow> Invalid Wrong_type)"
| "validate (TEnum cls members) a =
     (case a of
        AStr s \<Rightarrow>
          (case find (\<lambda>(member, val). val = s) members of
             None \<Rightarrow> Invalid Not_a_member
           | Some (member, val) \<Rightarrow> Valid (VEnum cls member))
      | _ \<Rightarrow> Invalid Not_a_member)"
| "validate (TLiteral allowed) a =
     (case a of
        AStr s \<Rightarrow> (if s \<in> set allowed then Valid (VStr s) else Invalid Not_a_member)
      | _ \<Rightarrow> Invalid Not_a_member)"
| "validate (TList t) a =
     (case a of
        AList xs \<Rightarrow>
          (case validate_all t xs of
             Valid ys \<Rightarrow> Valid (VList ys)
           | Invalid e \<Rightarrow> Invalid e
           | Unmodelled \<Rightarrow> Unmodelled)
      | _ \<Rightarrow> Invalid Wrong_type)"
| "validate (TIterable t) a = Unmodelled"
| "validate (TModel cls flds) a =
     (case a of
        ADict kwargs \<Rightarrow>
          (case validate_fields flds kwargs of
             Valid vs \<Rightarrow> Valid (VObj cls vs)
           | Invalid e \<Rightarrow> Invalid e
           | Unmodelled \<Rightarrow> Unmodelled)
      | _ \<Rightarrow> Invalid Wrong_type)"
| "validate_all t [] = Valid []"
| "validate_all t (x # xs) =
     (case validate t x of
        Valid y \<Rightarrow>
          (case validate_all t xs of
             Valid ys \<Rightarrow> Valid (y # ys)
           | Invalid e \<Rightarrow> Invalid e
           | Unmodelled \<Rightarrow> Unmodelled)
      | Invalid e \<Rightarrow> Invalid e
      | Unmodelled \<Rightarrow> Unmodelled)"
| "validate_fields [] kwargs = Valid []"
| "validate_fields ((fname, t, fi) # flds) kwargs =
     (case map_of kwargs fname of
        None \<Rightarrow>
          (case default_factory fi of
             None \<Rightarrow> Invalid (Missing fname)
           | Some f \<Rightarrow>
               (case validate_fields flds kwargs of
                  Valid vs \<Rightarrow> Valid ((fname, make f) # vs)
                | Invalid e \<Rightarrow> Invalid e
                | Unmodelled \<Rightarrow> Unmodelled))
      | Some a \<Rightarrow>
          (case validate t a of
             Valid v \<Rightarrow>
               (if check_field fi v
                then (case validate_fields flds kwargs of
                        Valid vs \<Rightarrow> Valid ((fname, v) # vs)
                      | Invalid e \<Rightarrow> Invalid e
                      | Unmodelled \<Rightarrow> Unmodelled)
                else Invalid (Constraint fname))
           | Invalid e \<Rightarrow> Invalid e
           | Unmodelled \<Rightarrow> Unmodelled))"

text \<open>
  Snake case, for the description "Must be snake case": lowercase letters, digits and
  underscores, starting with a letter.
\<close>

definition snake_case :: "string \<Rightarrow> bool" where
  "snake_case s =
     (case s of
        [] \<Rightarrow> False
      | c # cs \<Rightarrow> is_lower c \<and> list_all (\<lambda>x. is_lower x \<or> x \<in> set ''0123456789_'') cs)"

subsection \<open>Constructor calls of the tips notebook\<close>

text \<open>
  The calls \<^verbatim>\<open>Property(key=k, value=v)\<close> on the first declaration of
  \<^verbatim>\<open>Property\<close>, \<^verbatim>\<open>Property(index=i, key=k, value=v)\<close> on the second,
  and \<^verbatim>\<open>Character(age=a, name=n, house=h, properties=ps)\<close> on the two
  declarations with properties. A property inside a list of properties is given as the
  dictionary of its fields, as it arrives from the service.
\<close>

definition Property :: "string \<Rightarrow> string \<Rightarrow> pyval outcome" where
  "Property k v = validate Property_model (ADict [(''key'', AStr k), (''value'', AStr v)])"

definition Property_indexed :: "string \<Rightarrow> string \<Rightarrow> string \<Rightarrow> pyval outcome" where
  "Property_indexed i k v =
     validate Property_indexed_model
       (ADict [(''index'', AStr i), (''key'', AStr k), (''value'', AStr v)])"

definition Property_dict :: "string \<times> string \<Rightarrow> arg" where
  "Property_dict = (\<lambda>(k, v). ADict [(''key'', AStr k), (''value'', AStr v)])"

definition Property_indexed_dict :: "string \<times> string \<times> string \<Rightarrow> arg" where
  "Property_indexed_dict =
     (\<lambda>(i, k, v). ADict [(''index'', AStr i), (''key'', AStr k), (''value'', AStr v)])"

definition Character_properties ::
  "int \<Rightarrow> string \<Rightarrow> string \<Rightarrow> arg list \<Rightarrow> pyval outcome" where
  "Character_properties a n h ps =
     validate Character_properties_model
       (ADict [(''age'', AInt a), (''name'', AStr n), (''house'', AStr h),
               (''properties'', AList ps)])"

definition Character_five ::
  "int \<Rightarrow> string \<Rightarrow> string \<Rightarrow> arg list \<Rightarrow> pyval outcome" where
  "Character_five a n h ps =
     validate Character_five_model
       (ADict [(''age'', AInt a), (''name'', AStr n), (''house'', AStr h),
               (''properties'', AList ps)])"

text \<open>The instances that these calls are expected to build.\<close>

definition Property_obj :: "string \<times> string \<Rightarrow> pyval" where
  "Property_obj = (\<lambda>(k, v). VObj ''Property'' [(''key'', VStr k), (''value'', VStr v)])"

definition Property_indexed_obj :: "string \<times> string \<times> string \<Rightarrow> pyval" where
  "Property_indexed_obj =
     (\<lambda>(i, k, v). VObj ''Property'' [(''index'', VStr i), (''key'', VStr k), (''value'', VStr v)])"

definition Character_obj :: "int \<Rightarrow> string \<Rightarrow> string \<Rightarrow> pyval list \<Rightarrow> pyval" where
  "Character_obj a n h ps =
     VObj ''Character'' [(''age'', VInt a), (''name'', VStr n), (''house'', VStr h),
                         (''properties'', VList ps)]"

subsection \<open>Constructor calls of the RAG notebook\<close>

text \<open>
  \<^verbatim>\<open>Extraction(topic=t, summary=s)\<close> with the two list fields given or left
  out, and \<^verbatim>\<open>Question(id=i, query=q)\<close> with the subquestions given or left
  out: a field that is left out is not among the keyword arguments.
\<close>

definition given :: "string \<Rightarrow> arg option \<Rightarrow> (string \<times> arg) list" where
  "given fname a = (case a of None \<Rightarrow> [] | Some v \<Rightarrow> [(fname, v)])"

definition Extraction :: "string \<Rightarrow> string \<Rightarrow> arg option \<Rightarrow> arg option \<Rightarrow> pyval outcome" where
  "Extraction t s hq kw =
     validate Extraction_model
       (ADict ([(''topic'', AStr t), (''summary'', AStr s)]
               @ given ''hypothetical_questions'' hq @ given ''keywords'' kw))"

definition Question :: "int \<Rightarrow> string \<Rightarrow> arg option \<Rightarrow> pyval outcome" where
  "Question i q subs =
     validate Question_model
       (ADict ([(''id'', AInt i), (''query'', AStr q)] @ given ''subquestions'' subs))"

subsection \<open>The list objects of the defaults\<close>

text \<open>
  Python lists are objects: an instance holds a reference to the list of a field, and
  two references to one list see each other's changes. The store holds the list
  objects by address. A construction calls the \<^verbatim>\<open>default_factory\<close> of each
  declared field that the arguments leave out, once, in the order of the declaration,
  and the instance holds the reference to what the factory made; \<^verbatim>\<open>list\<close>,
  the only factory of the notebooks, makes a new empty list each time it is called.
\<close>

type_synonym ref = nat

type_synonym store = "pyval list list"

definition new_list :: "pyval list \<Rightarrow> store \<Rightarrow> ref \<times> store" where
  "new_list elems st = (length st, st @ [elems])"

definition elements :: "store \<Rightarrow> ref \<Rightarrow> pyval list option" where
  "elements st r = (if r < length st then Some (st ! r) else None)"

definition append_to :: "ref \<Rightarrow> pyval \<Rightarrow> store \<Rightarrow> store" where
  "append_to r v st = (if r < length st then st[r := st ! r @ [v]] else st)"

fun call_factory :: "factory \<Rightarrow> store \<Rightarrow> ref \<times> store" where
  "call_factory Factory_list st = new_list [] st"

fun default_objects ::
  "(string \<times> ty \<times> field_info) list \<Rightarrow> (string \<times> arg) list \<Rightarrow> store
     \<Rightarrow> (string \<times> ref) list \<times> store" where
  "default_objects [] kwargs st = ([], st)"
| "default_objects ((fname, t, fi) # flds) kwargs st =
     (case map_of kwargs fname of
        Some a \<Rightarrow> default_objects flds kwargs st
      | None \<Rightarrow>
          (case default_factory fi of
             None \<Rightarrow> default_objects flds kwargs st
           | Some f \<Rightarrow>
               (case call_factory f st of
                  (r, st1) \<Rightarrow>
                    (case default_objects flds kwargs st1 of
                       (rs, st2) \<Rightarrow> ((fname, r) # rs, st2)))))"

fun declared_fields :: "ty \<Rightarrow> (string \<times> ty \<times> field_info) list" where
  "declared_fields (TModel cls flds) = flds"
| "declared_fields t = []"

subsection \<open>Reading a declaration\<close>

text \<open>
  The annotation of a field of a class, and whether an annotation restricts the field to
  a fixed set of choices (an enum or a literal).
\<close>

fun field_type :: "ty \<Rightarrow> string \<Rightarrow> ty option" where
  "field_type (TModel cls flds) f = map_option fst (map_of flds f)"
| "field_type t f = None"

fun constrained_choice :: "ty \<Rightarrow> bool" where
  "constrained_choice (TEnum cls members) = True"
| "constrained_choice (TLiteral allowed) = True"
| "constrained_choice t = False"

section \<open>Tips notebook: classification with an enum\<close>

text \<open>
  The enum \<^verbatim>\<open>House\<close> with the value of each member, the first
  \<^verbatim>\<open>Character\<close> as the instances that \<^verbatim>\<open>say_hello\<close> reads, and
  the method: one \<^verbatim>\<open>print\<close> of an f-string that inserts the name, the age
  and \<^verbatim>\<open>self.house.value.title()\<close>. The f-string is built before
  \<^verbatim>\<open>print\<close> is called, so that nothing is printed when the age cannot be
  rendered.
\<close>

datatype House = Gryffindor | Hufflepuff | Ravenclaw | Slytherin

fun House_value :: "House \<Rightarrow> string" where
  "House_value Gryffindor = ''gryffindor''"
| "House_value Hufflepuff = ''hufflepuff''"
| "House_value Ravenclaw = ''ravenclaw''"
| "House_value Slytherin = ''slytherin''"

record Character =
  age :: int
  name :: string
  house :: House

definition say_hello ::
  "Character \<Rightarrow> 'v display list \<Rightarrow> 'e exn option \<times> 'v display list" where
  "say_hello self out =
     (case str_int (age self) of
        Inl e \<Rightarrow> (Some e, out)
      | Inr a \<Rightarrow>
          (None,
           out @ [Print_str (''Hello, I'm '' @ name self @ '', I'm '' @ a
                             @ '' years old and I'm from ''
                             @ title (House_value (house self)))]))"

section \<open>Tips notebook: the graph of friends\<close>

text \<open>
  The \<^verbatim>\<open>Character\<close> of "Defining Relationships", as the instances the graph
  cell reads: \<^verbatim>\<open>user.id\<close>, \<^verbatim>\<open>user.name\<close> and
  \<^verbatim>\<open>user.friends\<close>.
\<close>

record Character_rel =
  id' :: int
  name' :: string
  friends :: "int list"

text \<open>
  \<^verbatim>\<open>for user in resp: dot.node(str(user.id), user.name)\<close>. A loop ends with
  the exception of a \<^verbatim>\<open>str\<close> that raises.
\<close>

fun node_loop :: "Character_rel list \<Rightarrow> digraph \<Rightarrow> 'e exn + digraph" where
  "node_loop [] dot = Inr dot"
| "node_loop (user # resp) dot =
     (case str_int (id' user) of
        Inl e \<Rightarrow> Inl e
      | Inr nm \<Rightarrow> node_loop resp (node nm (name' user) dot))"

text \<open>
  The inner loop over \<^verbatim>\<open>user.friends\<close>, with its test
  \<^verbatim>\<open>friend_id > user.id\<close> and the two arguments of
  \<^verbatim>\<open>dot.edge\<close> rendered from left to right, and the outer loop over the
  users.
\<close>

fun friends_loop :: "Character_rel \<Rightarrow> int list \<Rightarrow> digraph \<Rightarrow> 'e exn + digraph" where
  "friends_loop user [] dot = Inr dot"
| "friends_loop user (friend_id # rest) dot =
     (if friend_id > id' user
      then (case str_int (id' user) of
              Inl e \<Rightarrow> Inl e
            | Inr tail_name \<Rightarrow>
                (case str_int friend_id of
                   Inl e \<Rightarrow> Inl e
                 | Inr head_name \<Rightarrow> friends_loop user rest (edge tail_name head_name dot)))
      else friends_loop user rest dot)"

fun edge_loop :: "Character_rel list \<Rightarrow> digraph \<Rightarrow> 'e exn + digraph" where
  "edge_loop [] dot = Inr dot"
| "edge_loop (user # resp) dot =
     (case friends_loop user (friends user) dot of
        Inl e \<Rightarrow> Inl e
      | Inr dot1 \<Rightarrow> edge_loop resp dot1)"

text \<open>
  The graph that the two loops build from an empty \<^verbatim>\<open>Digraph()\<close>, if they
  both end normally.
\<close>

definition graph_of :: "Character_rel list \<Rightarrow> 'e exn + digraph" where
  "graph_of resp =
     (case node_loop resp Digraph of
        Inl e \<Rightarrow> Inl e
      | Inr dot \<Rightarrow> edge_loop resp dot)"

text \<open>
  For comparison: the node statement of a user, the edge statements that a user
  contributes, and whether the loops render only numbers within the limit of
  \<^verbatim>\<open>str\<close> (the id of every user, and every friend id that passes the test).
\<close>

definition node_of :: "Character_rel \<Rightarrow> stmt" where
  "node_of user = Node (decimal (id' user)) (name' user)"

definition edges_of :: "Character_rel \<Rightarrow> digraph" where
  "edges_of user =
     map (\<lambda>friend_id. Edge (decimal (id' user)) (decimal friend_id))
         (filter (\<lambda>friend_id. friend_id > id' user) (friends user))"

definition within_limit :: "int \<Rightarrow> bool" where
  "within_limit i = (length (str_nat (nat \<bar>i\<bar>)) \<le> max_str_digits)"

definition renderable :: "Character_rel \<Rightarrow> bool" where
  "renderable user =
     (within_limit (id' user)
      \<and> list_all within_limit (filter (\<lambda>friend_id. friend_id > id' user) (friends user)))"

text \<open>
  The five characters that the notebook recorded for "The 5 kids from Harry Potter", as
  the cell of "Defining Relationships" printed them.
\<close>

definition five_kids :: "Character_rel list" where
  "five_kids =
     [\<lparr>id' = 1, name' = ''Harry Potter'', friends = [2, 3, 4, 5]\<rparr>,
      \<lparr>id' = 2, name' = ''Hermione Granger'', friends = [1, 3, 4, 5]\<rparr>,
      \<lparr>id' = 3, name' = ''Ron Weasley'', friends = [1, 2, 4, 5]\<rparr>,
      \<lparr>id' = 4, name' = ''Draco Malfoy'', friends = [5]\<rparr>,
      \<lparr>id' = 5, name' = ''Neville Longbottom'', friends = [1, 2, 3, 4]\<rparr>]"

text \<open>
  The number of edges drawn between two node names, in either direction, and every
  friend reference of a reply as an edge: what a cell that only displayed its reply
  would draw.
\<close>

definition edges_between :: "string \<Rightarrow> string \<Rightarrow> digraph \<Rightarrow> nat" where
  "edges_between a b dot = length (filter (\<lambda>s. s = Edge a b \<or> s = Edge b a) dot)"

definition friend_references :: "Character_rel list \<Rightarrow> digraph" where
  "friend_references resp =
     concat (map (\<lambda>user. map (\<lambda>friend_id. Edge (decimal (id' user)) (decimal friend_id))
                              (friends user)) resp)"

section \<open>Requests and cells\<close>

text \<open>
  A request is the keyword arguments of \<^verbatim>\<open>client.chat.completions.create\<close>;
  \<^verbatim>\<open>stream\<close> is false where the call does not pass it. The patched client is
  external and its answers depend on a remote service, so it is a parameter: for a
  request it raises an exception (\<open>Inl\<close>) or returns the parsed result (\<open>Inr\<close>). A
  cell runs on the requests issued so far and on what is shown so far, and ends normally
  (\<open>None\<close>) or with the exception that left it (\<open>Some\<close>).
\<close>

record request =
  model :: string
  messages :: "(string \<times> string) list"
  response_model :: ty
  stream :: bool

type_synonym ('e, 'r) client = "request \<Rightarrow> 'e + 'r"

record 'v notebook =
  requests :: "request list"
  shown :: "'v display list"

definition create :: "('e, 'r) client \<Rightarrow> request \<Rightarrow> 'v notebook \<Rightarrow> ('e + 'r) \<times> 'v notebook" where
  "create client req nb = (client req, nb\<lparr>requests := requests nb @ [req]\<rparr>)"

definition emit :: "'v display \<Rightarrow> 'v notebook \<Rightarrow> 'v notebook" where
  "emit d nb = nb\<lparr>shown := shown nb @ [d]\<rparr>"

text \<open>A \<^verbatim>\<open>for\<close> loop whose body shows one thing for each element.\<close>

fun for_each :: "('a \<Rightarrow> 'v display) \<Rightarrow> 'a list \<Rightarrow> 'v notebook \<Rightarrow> 'v notebook" where
  "for_each body [] nb = nb"
| "for_each body (x # xs) nb = for_each body xs (emit (body x) nb)"

text \<open>
  With \<^verbatim>\<open>stream=True\<close> the result is a generator: the elements it yields, and
  the exception that ends it if the library raises while the cell iterates. The loop
  shows what was yielded; the exception then leaves the cell.
\<close>

type_synonym ('e, 'a) generator = "'a list \<times> 'e option"

definition for_each_yielded ::
  "('a \<Rightarrow> 'v display) \<Rightarrow> ('e, 'a) generator \<Rightarrow> 'v notebook \<Rightarrow> 'e option \<times> 'v notebook" where
  "for_each_yielded body gen nb = (snd gen, for_each body (fst gen) nb)"

subsection \<open>The cells of the tips notebook\<close>

definition request_classification_enum :: request where
  "request_classification_enum =
     \<lparr>model = ''gpt-4-1106-preview'', messages = [(''user'', ''Harry Potter'')],
      response_model = Character_enum_model, stream = False\<rparr>"

definition cell_classification_enum :: "('e, 'v) client \<Rightarrow> 'v notebook \<Rightarrow> 'e option \<times> 'v notebook" where
  "cell_classification_enum client nb =
     (case create client request_classification_enum nb of
        (Inl e, nb1) \<Rightarrow> (Some e, nb1)
      | (Inr resp, nb1) \<Rightarrow> (None, emit (Out_model_dump resp) nb1))"

text \<open>\<^verbatim>\<open>resp.say_hello()\<close>, on the \<^verbatim>\<open>resp\<close> of the cell before.\<close>

definition cell_say_hello ::
  "Character \<Rightarrow> 'v notebook \<Rightarrow> 'e exn option \<times> 'v notebook" where
  "cell_say_hello resp nb =
     (case say_hello resp (shown nb) of (ending, out) \<Rightarrow> (ending, nb\<lparr>shown := out\<rparr>))"

definition request_classification_literal :: request where
  "request_classification_literal =
     \<lparr>model = ''gpt-4-1106-preview'', messages = [(''user'', ''Harry Potter'')],
      response_model = Character_literal_model, stream = False\<rparr>"

definition cell_classification_literal :: "('e, 'v) client \<Rightarrow> 'v notebook \<Rightarrow> 'e option \<times> 'v notebook" where
  "cell_classification_literal client nb =
     (case create client request_classification_literal nb of
        (Inl e, nb1) \<Rightarrow> (Some e, nb1)
      | (Inr resp, nb1) \<Rightarrow> (None, emit (Out_model_dump resp) nb1))"

definition request_arbitrary_properties :: request where
  "request_arbitrary_properties =
     \<lparr>model = ''gpt-4-1106-preview'', messages = [(''user'', ''Snape from Harry Potter'')],
      response_model = Character_properties_model, stream = False\<rparr>"

definition cell_arbitrary_properties :: "('e, 'v) client \<Rightarrow> 'v notebook \<Rightarrow> 'e option \<times> 'v notebook" where
  "cell_arbitrary_properties client nb =
     (case create client request_arbitrary_properties nb of
        (Inl e, nb1) \<Rightarrow> (Some e, nb1)
      | (Inr resp, nb1) \<Rightarrow> (None, emit (Out_model_dump resp) nb1))"

definition request_limited_properties :: request where
  "request_limited_properties =
     \<lparr>model = ''gpt-4-1106-preview'', messages = [(''user'', ''Snape from Harry Potter'')],
      response_model = Character_five_model, stream = False\<rparr>"

definition cell_limited_properties :: "('e, 'v) client \<Rightarrow> 'v notebook \<Rightarrow> 'e option \<times> 'v notebook" where
  "cell_limited_properties client nb =
     (case create client request_limited_properties nb of
        (Inl e, nb1) \<Rightarrow> (Some e, nb1)
      | (Inr resp, nb1) \<Rightarrow> (None, emit (Out_model_dump resp) nb1))"

text \<open>
  Without \<^verbatim>\<open>stream=True\<close> an \<^verbatim>\<open>Iterable\<close> response model gives a list.
\<close>

definition request_multiple_entities :: request where
  "request_multiple_entities =
     \<lparr>model = ''gpt-4-1106-preview'',
      messages = [(''user'', ''Snape and Dumbledore from Harry Potter'')],
      response_model = TIterable Character_literal_model, stream = False\<rparr>"

definition cell_multiple_entities :: "('e, 'v list) client \<Rightarrow> 'v notebook \<Rightarrow> 'e option \<times> 'v notebook" where
  "cell_multiple_entities client nb =
     (case create client request_multiple_entities nb of
        (Inl e, nb1) \<Rightarrow> (Some e, nb1)
      | (Inr resp, nb1) \<Rightarrow> (None, for_each Print_model resp nb1))"

definition request_multiple_entities_stream :: request where
  "request_multiple_entities_stream =
     \<lparr>model = ''gpt-4-1106-preview'',
      messages = [(''user'', ''Snape and Dumbledore from Harry Potter'')],
      response_model = TIterable Character_literal_model, stream = True\<rparr>"

definition cell_multiple_entities_stream ::
  "('e, ('e, 'v) generator) client \<Rightarrow> 'v notebook \<Rightarrow> 'e option \<times> 'v notebook" where
  "cell_multiple_entities_stream client nb =
     (case create client request_multiple_entities_stream nb of
        (Inl e, nb1) \<Rightarrow> (Some e, nb1)
      | (Inr resp, nb1) \<Rightarrow> for_each_yielded Print_model resp nb1)"

definition request_relationships :: request where
  "request_relationships =
     \<lparr>model = ''gpt-4-1106-preview'', messages = [(''user'', ''The 5 kids from Harry Potter'')],
      response_model = TIterable Character_friends_model, stream = True\<rparr>"

definition cell_relationships ::
  "('e, ('e, 'v) generator) client \<Rightarrow> 'v notebook \<Rightarrow> 'e option \<times> 'v notebook" where
  "cell_relationships client nb =
     (case create client request_relationships nb of
        (Inl e, nb1) \<Rightarrow> (Some e, nb1)
      | (Inr resp, nb1) \<Rightarrow> for_each_yielded Print_model resp nb1)"

text \<open>
  The graph cell: the graph is created, the request is made (without
  \<^verbatim>\<open>stream\<close>, so \<^verbatim>\<open>resp\<close> is a list and both loops read all of it),
  the two loops run and the graph is displayed. An exception of the call or of a loop
  leaves the cell before \<^verbatim>\<open>display\<close>.
\<close>

definition request_graph :: request where
  "request_graph =
     \<lparr>model = ''gpt-4-1106-preview'', messages = [(''user'', ''The 5 kids from Harry Potter'')],
      response_model = TIterable Character_friends_model, stream = False\<rparr>"

definition cell_graph ::
  "('e exn, Character_rel list) client \<Rightarrow> 'v notebook \<Rightarrow> 'e exn option \<times> 'v notebook"
  where
  "cell_graph client nb =
     (let dot = Digraph in
      case create client request_graph nb of
        (Inl e, nb1) \<Rightarrow> (Some e, nb1)
      | (Inr resp, nb1) \<Rightarrow>
          (case node_loop resp dot of
             Inl e \<Rightarrow> (Some e, nb1)
           | Inr dot1 \<Rightarrow>
               (case edge_loop resp dot1 of
                  Inl e \<Rightarrow> (Some e, nb1)
                | Inr dot2 \<Rightarrow> (None, emit (Display_dot dot2) nb1))))"

subsection \<open>The cells of the RAG notebook\<close>

text \<open>
  Four requests build a message with \<^verbatim>\<open>date.today()\<close> in an f-string. The
  date of the day is a parameter of those cells; \<^verbatim>\<open>str\<close> of a date is its
  ISO form.
\<close>

record date =
  year :: nat
  month :: nat
  day :: nat

definition zfill :: "nat \<Rightarrow> string \<Rightarrow> string" where
  "zfill width s = replicate (width - length s) CHR ''0'' @ s"

definition str_date :: "date \<Rightarrow> string" where
  "str_date d = zfill 4 (str_nat (year d)) @ ''-'' @ zfill 2 (str_nat (month d)) @ ''-''
                @ zfill 2 (str_nat (day d))"

definition lines_text :: "string list \<Rightarrow> string" where
  "lines_text ls = concat (map (\<lambda>l. l @ [CHR 0x0A]) ls)"

definition text_chunk :: string where
  \<open>text_chunk = lines_text
     ['''',
      ''## Simple RAG'',
      '''',
      ''**What is it?**'',
      '''',
      ''The simplest implementation of RAG embeds a user query and do a single embedding search in a vector database, like a vector store of Wikipedia articles. However, this approach often falls short when dealing with complex queries and diverse data sources.'',
      '''',
      ''**What are the limitations?**'',
      '''',
      ''- **Query-Document Mismatch:** It assumes that the query and document embeddings will align in the vector space, which is often not the case.'',
      ''    - Query: "Tell me about climate change effects on marine life."'',
      ''    - Issue: The model might retrieve documents related to general climate change or marine life, missing the specific intersection of both topics.'',
      ''- **Monolithic Search Backend:** It relies on a single search method and backend, reducing flexibility and the ability to handle multiple data sources.'',
      ''    - Query: "Latest research in quantum computing."'',
      ''    - Issue: The model might only search in a general science database, missing out on specialized quantum computing resources.'',
      ''- **Text Search Limitations:** The model is restricted to simple text queries without the nuances of advanced search features.'',
      ''    - Query: "what problems did we fix last week"'',
      ''    - Issue: cannot be answered by a simple text search since documents that contain problem, last week are going to be present at every week.'',
      ''- **Limited Planning Ability:** It fails to consider additional contextual information that could refine the search results.'',
      ''    - Query: "Tips for first-time Europe travelers."'',
      ''    - Issue: The model might provide general travel advice, ignoring the specific context of first-time travelers or European destinations.'']\<close>

definition request_extractions :: request where
  "request_extractions =
     \<lparr>model = ''gpt-4-1106-preview'',
      messages =
        [(''system'',
          ''Your role is to extract chunks from the following and create a set of topics.''),
         (''user'', text_chunk)],
      response_model = TIterable Extraction_model, stream = True\<rparr>"

definition cell_extractions ::
  "('e, ('e, 'v) generator) client \<Rightarrow> 'v notebook \<Rightarrow> 'e option \<times> 'v notebook" where
  "cell_extractions client nb =
     (case create client request_extractions nb of
        (Inl e, nb1) \<Rightarrow> (Some e, nb1)
      | (Inr extractions, nb1) \<Rightarrow> for_each_yielded Pprint_model_dump extractions nb1)"

definition request_query :: "date \<Rightarrow> request" where
  "request_query today =
     \<lparr>model = ''gpt-3.5-turbo'',
      messages =
        [(''system'',
          ''You're a query understanding system for the Metafor Systems search engine. Today is ''
          @ str_date today @ ''. Here are some tips: ...''),
         (''user'', ''query: What are some recent developments in AI?'')],
      response_model = Query_model, stream = False\<rparr>"

definition cell_query :: "date \<Rightarrow> ('e, 'v) client \<Rightarrow> 'v notebook \<Rightarrow> 'e option \<times> 'v notebook" where
  "cell_query today client nb =
     (case create client (request_query today) nb of
        (Inl e, nb1) \<Rightarrow> (Some e, nb1)
      | (Inr query, nb1) \<Rightarrow> (None, emit (Print_model_dump_json query 4) nb1))"

definition request_query_cot :: "date \<Rightarrow> request" where
  "request_query_cot today =
     \<lparr>model = ''gpt-4-1106-preview'',
      messages =
        [(''system'',
          ''You're a query understanding system for a search engine. Today is ''
          @ str_date today @ ''.''),
         (''user'', ''What are some recent developments in AI?'')],
      response_model = Query_cot_model, stream = False\<rparr>"

definition cell_query_cot :: "date \<Rightarrow> ('e, 'v) client \<Rightarrow> 'v notebook \<Rightarrow> 'e option \<times> 'v notebook" where
  "cell_query_cot today client nb =
     (case create client (request_query_cot today) nb of
        (Inl e, nb1) \<Rightarrow> (Some e, nb1)
      | (Inr query, nb1) \<Rightarrow> (None, emit (Print_model_dump_json query 4) nb1))"

text \<open>
  The cell after the sentence "The system will attempt to asynchronously dispatch the
  query to the appropriate backend", and the cell with the two tasks.
\<close>

definition request_retrival_today :: "date \<Rightarrow> request" where
  "request_retrival_today today =
     \<lparr>model = ''gpt-4-1106-preview'',
      messages =
        [(''system'', ''You are Jason's personal assistant. Today is '' @ str_date today),
         (''user'', ''What do I have today?'')],
      response_model = Retrival_model, stream = False\<rparr>"

definition cell_retrival_today :: "date \<Rightarrow> ('e, 'v) client \<Rightarrow> 'v notebook \<Rightarrow> 'e option \<times> 'v notebook" where
  "cell_retrival_today today client nb =
     (case create client (request_retrival_today today) nb of
        (Inl e, nb1) \<Rightarrow> (Some e, nb1)
      | (Inr retrival, nb1) \<Rightarrow> (None, emit (Print_model_dump_json retrival 4) nb1))"

definition request_retrival_meetings :: "date \<Rightarrow> request" where
  "request_retrival_meetings today =
     \<lparr>model = ''gpt-4-1106-preview'',
      messages =
        [(''system'', ''You are Jason's personal assistant. Today is '' @ str_date today),
         (''user'',
          ''What meetings do I have today and are there any important emails I should be aware of?'')],
      response_model = Retrival_model, stream = False\<rparr>"

definition cell_retrival_meetings :: "date \<Rightarrow> ('e, 'v) client \<Rightarrow> 'v notebook \<Rightarrow> 'e option \<times> 'v notebook" where
  "cell_retrival_meetings today client nb =
     (case create client (request_retrival_meetings today) nb of
        (Inl e, nb1) \<Rightarrow> (Some e, nb1)
      | (Inr retrival, nb1) \<Rightarrow> (None, emit (Print_model_dump_json retrival 4) nb1))"

definition request_query_plan :: request where
  "request_query_plan =
     \<lparr>model = ''gpt-4-1106-preview'',
      messages =
        [(''system'',
          ''You are a query understanding system capable of decomposing a question into subquestions.''),
         (''user'',
          ''What is the difference between the population of jason's home country and canada?'')],
      response_model = QueryPlan_model, stream = False\<rparr>"

definition cell_query_plan :: "('e, 'v) client \<Rightarrow> 'v notebook \<Rightarrow> 'e option \<times> 'v notebook" where
  "cell_query_plan client nb =
     (case create client request_query_plan nb of
        (Inl e, nb1) \<Rightarrow> (Some e, nb1)
      | (Inr retrival, nb1) \<Rightarrow> (None, emit (Print_model_dump_json retrival 4) nb1))"

section \<open>What the cells are compared with\<close>

text \<open>
  A cell and its request: when the call raises, the exception leaves the cell after that
  one request and with nothing shown; when the call returns, the cell ends normally, or
  ends as what it does with the result ends; when the call returns a generator, the cell
  ends as the generator does.
\<close>

definition raise_leaves_cell ::
  "(('e, 'r) client \<Rightarrow> 'v notebook \<Rightarrow> 'e option \<times> 'v notebook) \<Rightarrow> request \<Rightarrow> bool" where
  "raise_leaves_cell cell req =
     (\<forall>client nb e. client req = Inl e \<longrightarrow>
        cell client nb = (Some e, nb\<lparr>requests := requests nb @ [req]\<rparr>))"

definition result_ends_cell ::
  "(('e, 'r) client \<Rightarrow> 'v notebook \<Rightarrow> 'e option \<times> 'v notebook) \<Rightarrow> request \<Rightarrow> bool" where
  "result_ends_cell cell req =
     (\<forall>client nb r. client req = Inr r \<longrightarrow> fst (cell client nb) = None)"

definition result_ends_cell_as ::
  "(('e, 'r) client \<Rightarrow> 'v notebook \<Rightarrow> 'e option \<times> 'v notebook) \<Rightarrow> request
     \<Rightarrow> ('r \<Rightarrow> 'e option) \<Rightarrow> bool" where
  "result_ends_cell_as cell req ending =
     (\<forall>client nb r. client req = Inr r \<longrightarrow> fst (cell client nb) = ending r)"

definition generator_ends_cell ::
  "(('e, ('e, 'a) generator) client \<Rightarrow> 'v notebook \<Rightarrow> 'e option \<times> 'v notebook) \<Rightarrow> request \<Rightarrow> bool"
  where
  "generator_ends_cell cell req =
     (\<forall>client nb gen. client req = Inr gen \<longrightarrow> fst (cell client nb) = snd gen)"

text \<open>
  A cell issues exactly its one request, whatever the client answers; and what a cell
  shows when the call returns.
\<close>

definition one_request ::
  "(('e, 'r) client \<Rightarrow> 'v notebook \<Rightarrow> 'e option \<times> 'v notebook) \<Rightarrow> request \<Rightarrow> bool" where
  "one_request cell req =
     (\<forall>client nb. requests (snd (cell client nb)) = requests nb @ [req])"

definition shows_of_reply ::
  "(('e, 'r) client \<Rightarrow> 'v notebook \<Rightarrow> 'e option \<times> 'v notebook) \<Rightarrow> request
     \<Rightarrow> ('r \<Rightarrow> 'v display list) \<Rightarrow> bool" where
  "shows_of_reply cell req rendering =
     (\<forall>client nb r. client req = Inr r \<longrightarrow>
        shown (snd (cell client nb)) = shown nb @ rendering r)"

text \<open>
  Following the spec: a graph cell limited to display draws what it read, a node for
  each user and an edge for each friend reference.
\<close>

definition display_only_graph :: "Character_rel list \<Rightarrow> digraph \<Rightarrow> bool" where
  "display_only_graph resp dot = (dot = map node_of resp @ friend_references resp)"

section \<open>The pre-commit configuration\<close>

text \<open>
  \<^verbatim>\<open>.pre-commit-config.yaml\<close> as data: the list under \<^verbatim>\<open>repos\<close>, each
  entry with its hooks. A key that a hook or an entry does not give is \<open>None\<close> (or the
  empty list). The \<^verbatim>\<open>entry\<close> of the local hook is a folded block scalar: its
  lines are joined by single spaces and end with one newline.
\<close>

record hook =
  id_hook :: string
  name_hook :: "string option"
  args :: "string list"
  entry :: "string option"
  language :: "string option"
  types :: "string list"
  pass_filenames :: "bool option"

record repo_entry =
  repo :: string
  rev' :: "string option"
  hooks :: "hook list"

definition folded :: "string list \<Rightarrow> string" where
  "folded ls = foldr (\<lambda>l acc. if acc = [] then l else l @ '' '' @ acc) ls [] @ [CHR 0x0A]"

definition type_check_entry :: string where
  \<open>type_check_entry = folded
     [''bash -c 'set -o pipefail;'',
      ''export CUSTOM_PACKAGES="instructor/cli/cli.py instructor/cli/usage.py" &&'',
      ''export CUSTOM_FLAGS="--python-version=3.9 --color-output --no-pretty" &&'',
      ''curl -sSL https://raw.githubusercontent.com/gao-hongnan/omniverse/continuous-integration/scripts/devops/continuous-integration/type_mypy.sh |'',
      ''bash'' @ [CHR 0x27]]\<close>

definition ruff_repo :: repo_entry where
  "ruff_repo =
     \<lparr>repo = ''https://github.com/astral-sh/ruff-pre-commit'', rev' = Some ''v0.1.7'',
      hooks =
        [\<lparr>id_hook = ''ruff'', name_hook = None, args = [''--fix''], entry = None,
          language = None, types = [], pass_filenames = None\<rparr>,
         \<lparr>id_hook = ''ruff-format'', name_hook = None, args = [], entry = None,
          language = None, types = [], pass_filenames = None\<rparr>]\<rparr>"

definition local_repo :: repo_entry where
  "local_repo =
     \<lparr>repo = ''local'', rev' = None,
      hooks =
        [\<lparr>id_hook = ''ci_type_mypy'', name_hook = Some ''Static Type Check'', args = [],
          entry = Some type_check_entry, language = Some ''system'', types = [''python''],
          pass_filenames = Some False\<rparr>]\<rparr>"

definition repos :: "repo_entry list" where
  "repos = [ruff_repo, local_repo]"

text \<open>
  Reading the shell command of an entry: the script that \<^verbatim>\<open>bash -c '...'\<close>
  runs, the value that the script exports for a variable, the words of a text, and the
  last command of a chain joined by \<^verbatim>\<open>&&\<close>.
\<close>

fun starts_with :: "string \<Rightarrow> string \<Rightarrow> string option" where
  "starts_with [] s = Some s"
| "starts_with (p # ps) [] = None"
| "starts_with (p # ps) (c # cs) = (if p = c then starts_with ps cs else None)"

fun after :: "string \<Rightarrow> string \<Rightarrow> string option" where
  "after marker [] = starts_with marker []"
| "after marker (c # cs) =
     (case starts_with marker (c # cs) of Some r \<Rightarrow> Some r | None \<Rightarrow> after marker cs)"

fun split_from :: "string \<Rightarrow> string \<Rightarrow> string list" where
  "split_from cur [] = (if cur = [] then [] else [cur])"
| "split_from cur (c # cs) =
     (if c = CHR '' '' \<or> c = CHR 0x0A
      then (if cur = [] then split_from [] cs else cur # split_from [] cs)
      else split_from (cur @ [c]) cs)"

definition split_words :: "string \<Rightarrow> string list" where
  "split_words s = split_from [] s"

definition bash_c_script :: "string \<Rightarrow> string option" where
  "bash_c_script command =
     map_option (takeWhile (\<lambda>c. c \<noteq> CHR 0x27))
       (starts_with (''bash -c '' @ [CHR 0x27]) command)"

definition exported :: "string \<Rightarrow> string \<Rightarrow> string option" where
  "exported var script =
     map_option (takeWhile (\<lambda>c. c \<noteq> CHR 0x22))
       (after (''export '' @ var @ ''='' @ [CHR 0x22]) script)"

definition last_command :: "string list \<Rightarrow> string list" where
  "last_command ws = rev (takeWhile (\<lambda>w. w \<noteq> ''&&'') (rev ws))"

section \<open>Facts about the string functions\<close>

lemmas char_case_defs =
  to_upper_def to_lower_def is_cased_def is_lower_def is_upper_def
  ascii_lowercase_def ascii_uppercase_def

lemma title_House_value:
  "title (House_value h) = first_letter_capitalized (House_value h)"
  by (cases h) (simp_all add: title_def first_letter_capitalized_def char_case_defs)

lemma title_is_not_first_letter_capitalized:
  "title ''draco malfoy'' = ''Draco Malfoy''
   \<and> first_letter_capitalized ''draco malfoy'' = ''Draco malfoy''"
  by (simp add: title_def first_letter_capitalized_def char_case_defs)

lemma str_nat_lt10: "n < 10 \<Longrightarrow> str_nat n = [digit_char n]"
  by (subst str_nat.simps) simp

lemma str_nat_ge10:
  "\<not> n < 10 \<Longrightarrow> str_nat n = str_nat (n div 10) @ [digit_char (n mod 10)]"
  by (subst str_nat.simps) simp

lemmas str_int_eval =
  str_int_def max_str_digits_def decimal_def str_nat_lt10 str_nat_ge10 digit_char_def

section \<open>Facts about the decimal numeral\<close>

lemma digit_char_inj: "a < 10 \<Longrightarrow> b < 10 \<Longrightarrow> digit_char a = digit_char b \<Longrightarrow> a = b"
proof -
  assume a: "a < 10" and b: "b < 10" and eq: "digit_char a = digit_char b"
  have d: "distinct ''0123456789''" by simp
  have "a < length ''0123456789''" "b < length ''0123456789''" using a b by simp_all
  with d eq show "a = b" unfolding digit_char_def by (simp only: nth_eq_iff_index_eq)
qed

lemma digit_char_not_minus: "d < 10 \<Longrightarrow> digit_char d \<noteq> CHR ''-''"
proof -
  assume "d < 10"
  then have "digit_char d \<in> set ''0123456789''"
    unfolding digit_char_def by (intro nth_mem) simp
  then show ?thesis by auto
qed

lemma str_nat_not_Nil: "str_nat n \<noteq> []"
  by (subst str_nat.simps) simp

lemma str_nat_inj: "str_nat n = str_nat m \<Longrightarrow> n = m"
proof (induction n arbitrary: m rule: str_nat.induct)
  case (1 n)
  show ?case
  proof (cases "n < 10")
    case True
    show ?thesis
    proof (cases "m < 10")
      case mt: True
      with True 1(2) show ?thesis by (simp add: str_nat_lt10 digit_char_inj)
    next
      case False
      with True 1(2) show ?thesis
        using str_nat_not_Nil [of "m div 10"] by (simp add: str_nat_lt10 str_nat_ge10)
    qed
  next
    case False
    show ?thesis
    proof (cases "m < 10")
      case True
      with False 1(2) show ?thesis
        using str_nat_not_Nil [of "n div 10"] by (simp add: str_nat_lt10 str_nat_ge10)
    next
      case mf: False
      with False 1(2) have a: "str_nat (n div 10) = str_nat (m div 10)"
        and b: "digit_char (n mod 10) = digit_char (m mod 10)"
        by (simp_all add: str_nat_ge10)
      from 1(1) [OF False a] have "n div 10 = m div 10" .
      moreover from b have "n mod 10 = m mod 10" by (simp add: digit_char_inj)
      ultimately show ?thesis by (metis div_mult_mod_eq)
    qed
  qed
qed

lemma str_nat_no_minus: "CHR ''-'' \<notin> set (str_nat n)"
proof (induction n rule: str_nat.induct)
  case (1 n)
  show ?case
  proof (cases "n < 10")
    case True
    then show ?thesis using digit_char_not_minus [of n] by (simp add: str_nat_lt10)
  next
    case False
    then show ?thesis using 1 digit_char_not_minus [of "n mod 10"] by (simp add: str_nat_ge10)
  qed
qed

lemma decimal_inj: "decimal i = decimal j \<Longrightarrow> i = j"
proof -
  assume eq: "decimal i = decimal j"
  have hd_nat: "\<And>n. hd (str_nat n) \<noteq> CHR ''-''"
    using str_nat_no_minus str_nat_not_Nil by (metis hd_in_set)
  show "i = j"
  proof (cases "i < 0")
    case True
    show ?thesis
    proof (cases "j < 0")
      case jt: True
      with True eq have "str_nat (nat (- i)) = str_nat (nat (- j))" by (simp add: decimal_def)
      then have "nat (- i) = nat (- j)" by (rule str_nat_inj)
      with True jt show ?thesis by simp
    next
      case False
      with True eq have "CHR ''-'' # str_nat (nat (- i)) = str_nat (nat j)" by (simp add: decimal_def)
      then have "hd (str_nat (nat j)) = CHR ''-''" by (metis list.sel(1))
      with hd_nat show ?thesis by blast
    qed
  next
    case False
    show ?thesis
    proof (cases "j < 0")
      case True
      with False eq have "str_nat (nat i) = CHR ''-'' # str_nat (nat (- j))" by (simp add: decimal_def)
      then have "hd (str_nat (nat i)) = CHR ''-''" by (metis list.sel(1))
      with hd_nat show ?thesis by blast
    next
      case jf: False
      with False eq have "str_nat (nat i) = str_nat (nat j)" by (simp add: decimal_def)
      then have "nat i = nat j" by (rule str_nat_inj)
      with False jf show ?thesis by simp
    qed
  qed
qed

lemma decimal_eq_iff [simp]: "(decimal i = decimal j) = (i = j)"
  using decimal_inj by blast

text \<open>The number of digits, against the powers of ten.\<close>

lemma length_str_nat_gt: "10 ^ k \<le> n \<Longrightarrow> k < length (str_nat n)"
proof (induction k arbitrary: n)
  case 0
  then show ?case using str_nat_not_Nil [of n] by (simp add: Suc_le_eq)
next
  case (Suc k)
  have "(10::nat) \<le> 10 ^ Suc k" by simp
  with Suc.prems have big: "\<not> n < 10" by linarith
  from Suc.prems have "10 ^ k \<le> n div 10"
    by (simp add: less_eq_div_iff_mult_less_eq mult.commute)
  then have "k < length (str_nat (n div 10))" by (rule Suc.IH)
  with big show ?case by (simp add: str_nat_ge10)
qed

lemma length_str_nat_le: "n < 10 ^ k \<Longrightarrow> 0 < k \<Longrightarrow> length (str_nat n) \<le> k"
proof (induction k arbitrary: n)
  case 0
  then show ?case by simp
next
  case (Suc k)
  show ?case
  proof (cases "n < 10")
    case True
    then show ?thesis by (simp add: str_nat_lt10)
  next
    case False
    with Suc.prems have k: "0 < k" by (cases k) simp_all
    from Suc.prems have "n div 10 < 10 ^ k"
      by (simp add: div_less_iff_less_mult mult.commute)
    then have "length (str_nat (n div 10)) \<le> k" using k by (rule Suc.IH)
    with False show ?thesis by (simp add: str_nat_ge10)
  qed
qed

lemma digits_le_iff: "0 < k \<Longrightarrow> (length (str_nat n) \<le> k) = (n < 10 ^ k)"
  using length_str_nat_le [of n k] length_str_nat_gt [of k n] by (cases "n < 10 ^ k") auto

lemma max_str_digits_pos: "0 < max_str_digits"
  by (simp add: max_str_digits_def)

lemma within_limit_iff: "within_limit i = (\<bar>i\<bar> < 10 ^ max_str_digits)"
proof -
  have "(nat \<bar>i\<bar> < 10 ^ max_str_digits) = (\<bar>i\<bar> < int (10 ^ max_str_digits))"
    by (simp only: nat_less_iff abs_ge_zero)
  also have "int (10 ^ max_str_digits) = 10 ^ max_str_digits"
    by (simp only: of_nat_power of_nat_numeral)
  finally show ?thesis
    by (simp only: within_limit_def digits_le_iff [OF max_str_digits_pos])
qed

lemma str_int_cases:
  "str_int i = (if within_limit i then Inr (decimal i) else Inl ValueError)"
  by (auto simp: str_int_def within_limit_def)

lemma str_int_within: "\<bar>i\<bar> < 10 ^ max_str_digits \<Longrightarrow> str_int i = Inr (decimal i)"
  by (simp only: str_int_cases within_limit_iff if_True)

lemma str_int_beyond: "10 ^ max_str_digits \<le> \<bar>i\<bar> \<Longrightarrow> str_int i = Inl ValueError"
  by (simp only: str_int_cases within_limit_iff not_less [symmetric] if_False)

lemma ten_to_the_limit: "\<bar>10 ^ 4300 :: int\<bar> = 10 ^ max_str_digits"
  by (simp only: max_str_digits_def power_abs abs_numeral)

lemma str_int_ten_to_the_limit: "str_int (10 ^ 4300) = Inl ValueError"
  by (rule str_int_beyond) (simp only: ten_to_the_limit order_refl)

text \<open>Reading the numeral of a number gives the number back.\<close>

lemma digit_value_digit_char: "d < 10 \<Longrightarrow> digit_value (digit_char d) = Some d"
proof -
  assume "d < 10"
  then have "d = 0 \<or> d = 1 \<or> d = 2 \<or> d = 3 \<or> d = 4 \<or> d = 5 \<or> d = 6 \<or> d = 7 \<or> d = 8 \<or> d = 9"
    by arith
  then show ?thesis
    by (elim disjE) (simp_all add: digit_value_def digit_char_def)
qed

lemma value_of_digits_append:
  "value_of_digits acc (xs @ ys)
     = (case value_of_digits acc xs of None \<Rightarrow> None | Some v \<Rightarrow> value_of_digits v ys)"
  by (induction xs arbitrary: acc) (simp_all split: option.split)

lemma value_of_digits_str_nat: "value_of_digits 0 (str_nat n) = Some n"
proof (induction n rule: str_nat.induct)
  case (1 n)
  show ?case
  proof (cases "n < 10")
    case True
    then show ?thesis by (simp add: str_nat_lt10 digit_value_digit_char)
  next
    case False
    with 1 have "value_of_digits 0 (str_nat (n div 10)) = Some (n div 10)" by simp
    with False show ?thesis
      by (simp add: str_nat_ge10 value_of_digits_append digit_value_digit_char)
  qed
qed

lemma str_nat_0: "str_nat 0 = ''0''"
  by (simp add: str_nat_lt10 digit_char_def)

lemma hd_str_nat_zero: "hd (str_nat n) = CHR ''0'' \<Longrightarrow> n = 0"
proof (induction n rule: str_nat.induct)
  case (1 n)
  have zero: "digit_char 0 = CHR ''0''" by (simp add: digit_char_def)
  show ?case
  proof (cases "n < 10")
    case True
    with 1(2) have "digit_char n = digit_char 0" by (simp add: str_nat_lt10 zero)
    with True show ?thesis using digit_char_inj [of n 0] by simp
  next
    case False
    with 1(2) have "hd (str_nat (n div 10)) = CHR ''0''"
      using str_nat_not_Nil [of "n div 10"] by (simp add: str_nat_ge10)
    with 1(1) False have "n div 10 = 0" by simp
    with False show ?thesis by simp
  qed
qed

lemma nat_of_decimal_str_nat: "nat_of_decimal (str_nat n) = Some n"
proof -
  have "hd (str_nat n) = CHR ''0'' \<Longrightarrow> str_nat n = ''0''"
    using hd_str_nat_zero [of n] str_nat_0 by simp
  then show ?thesis
    using str_nat_not_Nil [of n] by (auto simp: nat_of_decimal_def value_of_digits_str_nat)
qed

lemma int_of_decimal_decimal: "int_of_decimal (decimal i) = Some i"
proof (cases "i < 0")
  case True
  then show ?thesis by (simp add: int_of_decimal_def decimal_def nat_of_decimal_str_nat)
next
  case False
  have "str_nat (nat i) \<noteq> []" by (rule str_nat_not_Nil)
  then obtain c cs where s: "str_nat (nat i) = c # cs" by (cases "str_nat (nat i)") auto
  have "c \<noteq> CHR ''-''" using str_nat_no_minus [of "nat i"] s by auto
  moreover have "nat_of_decimal (c # cs) = Some (nat i)"
    using nat_of_decimal_str_nat [of "nat i"] s by simp
  ultimately show ?thesis using False s by (simp add: int_of_decimal_def decimal_def)
qed

text \<open>A text that reads as a number is the numeral of that number.\<close>

lemma digit_value_Some: "digit_value c = Some d \<Longrightarrow> d < 10 \<and> c = digit_char d"
  by (auto simp: digit_value_def digit_char_def split: if_splits)

lemma value_of_digits_canonical:
  "s \<noteq> [] \<Longrightarrow> (hd s = CHR ''0'' \<longrightarrow> s = ''0'') \<Longrightarrow> value_of_digits 0 s = Some n
   \<Longrightarrow> s = str_nat n"
proof (induction s arbitrary: n rule: rev_induct)
  case Nil
  then show ?case by simp
next
  case (snoc c xs)
  from snoc.prems(3) obtain m d where m: "value_of_digits 0 xs = Some m"
    and d: "digit_value c = Some d" and n: "n = 10 * m + d"
    by (auto simp: value_of_digits_append split: option.splits)
  from d have d10: "d < 10" and c: "c = digit_char d"
    using digit_value_Some by blast+
  show ?case
  proof (cases "xs = []")
    case True
    with m n have "n = d" by simp
    with True c d10 show ?thesis by (simp add: str_nat_lt10)
  next
    case False
    with snoc.prems(2) have hd: "hd xs \<noteq> CHR ''0''" by (cases xs) auto
    then have xs: "xs = str_nat m"
      using snoc.IH [OF False _ m] by simp
    have "m \<noteq> 0"
    proof
      assume "m = 0"
      with xs have "xs = ''0''" by (simp add: str_nat_0)
      with hd show False by simp
    qed
    with n d10 have big: "\<not> n < 10" and dv: "n div 10 = m" and md: "n mod 10 = d"
      by simp_all
    with xs c show ?thesis by (simp add: str_nat_ge10)
  qed
qed

lemma nat_of_decimal_iff: "(nat_of_decimal s = Some n) = (s = str_nat n)"
proof
  assume "nat_of_decimal s = Some n"
  then show "s = str_nat n"
    using value_of_digits_canonical [of s n]
    by (auto simp: nat_of_decimal_def split: if_splits)
next
  assume "s = str_nat n"
  then show "nat_of_decimal s = Some n" by (simp add: nat_of_decimal_str_nat)
qed

lemma int_of_decimal_iff: "(int_of_decimal s = Some i) = (s = decimal i)"
proof
  assume r: "int_of_decimal s = Some i"
  then obtain c ds where s: "s = c # ds" by (cases s) (auto simp: int_of_decimal_def)
  show "s = decimal i"
  proof (cases "c = CHR ''-''")
    case True
    with r s obtain n where "nat_of_decimal ds = Some n" and "n \<noteq> 0" and "i = - int n"
      by (auto simp: int_of_decimal_def split: option.splits if_splits)
    then show ?thesis using s True by (simp add: nat_of_decimal_iff decimal_def)
  next
    case False
    with r s obtain n where "nat_of_decimal s = Some n" and "i = int n"
      by (auto simp: int_of_decimal_def)
    then show ?thesis by (simp add: nat_of_decimal_iff decimal_def)
  qed
next
  assume "s = decimal i"
  then show "int_of_decimal s = Some i" by (simp add: int_of_decimal_decimal)
qed

lemma say_hello_recorded_output:
  "say_hello \<lparr>age = 17, name = ''Harry Potter'', house = Gryffindor\<rparr> []
     = (None, [Print_str ''Hello, I'm Harry Potter, I'm 17 years old and I'm from Gryffindor''])"
  by (simp add: say_hello_def title_def char_case_defs str_int_eval)

section \<open>The greeting of \<^verbatim>\<open>say_hello\<close>\<close>

text \<open>
  C5, as amended. For every Character (an age, a name, and a house of the four-member
  enum House, whose values are the lowercase strings gryffindor, hufflepuff, ravenclaw
  and slytherin) whose age has at most 4300 decimal digits, \<^verbatim>\<open>say_hello\<close> prints
  exactly "Hello, I'm {name}, I'm {age} years old and I'm from {H}", where {age} is the
  decimal numeral of the age and H is the value of the house with its first letter
  capitalized. For an age of more digits the rendering of the age raises ValueError and
  nothing is printed.
\<close>

theorem say_hello_prints_greeting:
  "(\<bar>age self\<bar> < 10 ^ max_str_digits \<longrightarrow>
      (\<exists>a. int_of_decimal a = Some (age self)
         \<and> say_hello self out
             = (None,
                out @ [Print_str (''Hello, I'm '' @ name self @ '', I'm '' @ a
                                  @ '' years old and I'm from ''
                                  @ first_letter_capitalized (House_value (house self)))])))
   \<and> (10 ^ max_str_digits \<le> \<bar>age self\<bar> \<longrightarrow> say_hello self out = (Some ValueError, out))
   \<and> max_str_digits = 4300
   \<and> (UNIV :: House set) = {Gryffindor, Hufflepuff, Ravenclaw, Slytherin}
   \<and> map House_value [Gryffindor, Hufflepuff, Ravenclaw, Slytherin]
       = [''gryffindor'', ''hufflepuff'', ''ravenclaw'', ''slytherin'']
   \<and> map (first_letter_capitalized \<circ> House_value) [Gryffindor, Hufflepuff, Ravenclaw, Slytherin]
       = [''Gryffindor'', ''Hufflepuff'', ''Ravenclaw'', ''Slytherin'']"
proof -
  have small: "\<exists>a. int_of_decimal a = Some (age self)
         \<and> say_hello self out
             = (None,
                out @ [Print_str (''Hello, I'm '' @ name self @ '', I'm '' @ a
                                  @ '' years old and I'm from ''
                                  @ first_letter_capitalized (House_value (house self)))])"
    if "\<bar>age self\<bar> < 10 ^ max_str_digits"
  proof (intro exI conjI)
    show "int_of_decimal (decimal (age self)) = Some (age self)"
      by (rule int_of_decimal_decimal)
    show "say_hello self out
        = (None,
           out @ [Print_str (''Hello, I'm '' @ name self @ '', I'm '' @ decimal (age self)
                             @ '' years old and I'm from ''
                             @ first_letter_capitalized (House_value (house self)))])"
      using that by (simp add: say_hello_def str_int_within title_House_value)
  qed
  have big: "say_hello self out = (Some ValueError, out)"
    if "10 ^ max_str_digits \<le> \<bar>age self\<bar>"
    using that by (simp add: say_hello_def str_int_beyond)
  have houses: "(UNIV :: House set) = {Gryffindor, Hufflepuff, Ravenclaw, Slytherin}"
    using House.exhaust by blast
  have vals: "map House_value [Gryffindor, Hufflepuff, Ravenclaw, Slytherin]
       = [''gryffindor'', ''hufflepuff'', ''ravenclaw'', ''slytherin'']
     \<and> map (first_letter_capitalized \<circ> House_value) [Gryffindor, Hufflepuff, Ravenclaw, Slytherin]
       = [''Gryffindor'', ''Hufflepuff'', ''Ravenclaw'', ''Slytherin'']"
    by (simp add: first_letter_capitalized_def char_case_defs)
  have lim: "max_str_digits = 4300"
    by (simp add: max_str_digits_def)
  from small big lim houses vals show ?thesis
    by blast
qed

theorem say_hello_prints_greeting_witness:
  "\<bar>17 :: int\<bar> < 10 ^ max_str_digits
   \<and> int_of_decimal ''17'' = Some 17
   \<and> say_hello \<lparr>age = 17, name = ''Harry Potter'', house = Gryffindor\<rparr>
         ([] :: unit display list)
       = (None :: unit exn option,
          [Print_str ''Hello, I'm Harry Potter, I'm 17 years old and I'm from Gryffindor''])"
proof -
  let ?harry = "\<lparr>age = 17, name = ''Harry Potter'', house = Gryffindor\<rparr>"
  have "within_limit 17"
    by (simp add: within_limit_def max_str_digits_def str_nat_lt10 str_nat_ge10)
  then have small: "\<bar>17 :: int\<bar> < 10 ^ max_str_digits"
    by (simp only: within_limit_iff)
  with say_hello_prints_greeting [of ?harry "[] :: unit display list"]
  obtain a where a: "int_of_decimal a = Some 17"
    and says: "say_hello ?harry ([] :: unit display list)
      = (None :: unit exn option,
         [Print_str (''Hello, I'm '' @ ''Harry Potter'' @ '', I'm '' @ a
                     @ '' years old and I'm from ''
                     @ first_letter_capitalized (House_value Gryffindor))])"
    by auto
  from a have "a = decimal 17" by (simp only: int_of_decimal_iff)
  then have a17: "a = ''17''" by (simp add: str_int_eval)
  from a a17 have "int_of_decimal ''17'' = Some 17" by simp
  moreover from says a17
  have "say_hello ?harry ([] :: unit display list)
      = (None :: unit exn option,
         [Print_str ''Hello, I'm Harry Potter, I'm 17 years old and I'm from Gryffindor''])"
    by (simp add: first_letter_capitalized_def char_case_defs)
  ultimately show ?thesis using small by blast
qed

text \<open>
  C5 as stated fails for an age of 4301 digits: the f-string raises before anything is
  printed.
\<close>

theorem say_hello_age_beyond_limit:
  "say_hello \<lparr>age = 10 ^ 4300, name = ''Harry Potter'', house = Gryffindor\<rparr> []
     = (Some ValueError, [])"
  by (simp only: say_hello_def str_int_ten_to_the_limit Character.select_convs sum.case)

section \<open>The edges of the graph cell\<close>

lemma friends_loop_eq:
  "within_limit (id' user) \<Longrightarrow>
   friends_loop user fs dot =
     (if list_all within_limit (filter (\<lambda>friend_id. friend_id > id' user) fs)
      then Inr (dot @ map (\<lambda>friend_id. Edge (decimal (id' user)) (decimal friend_id))
                          (filter (\<lambda>friend_id. friend_id > id' user) fs))
      else Inl ValueError)"
  by (induction fs arbitrary: dot) (simp_all add: edge_def str_int_cases)

lemma node_loop_eq:
  "node_loop resp dot =
     (if list_all (\<lambda>user. within_limit (id' user)) resp
      then Inr (dot @ map node_of resp) else Inl ValueError)"
  by (induction resp arbitrary: dot) (simp_all add: node_def node_of_def str_int_cases)

lemma edge_loop_eq:
  "list_all (\<lambda>user. within_limit (id' user)) resp \<Longrightarrow>
   edge_loop resp dot =
     (if list_all renderable resp then Inr (dot @ concat (map edges_of resp))
      else Inl ValueError)"
  by (induction resp arbitrary: dot)
     (simp_all add: friends_loop_eq edges_of_def renderable_def)

lemma renderable_ids:
  "list_all renderable resp \<Longrightarrow> list_all (\<lambda>user. within_limit (id' user)) resp"
  by (induction resp) (simp_all add: renderable_def)

lemma graph_of_eq:
  "graph_of resp =
     (if list_all renderable resp
      then Inr (map node_of resp @ concat (map edges_of resp)) else Inl ValueError)"
proof (cases "list_all (\<lambda>user. within_limit (id' user)) resp")
  case True
  then show ?thesis
    by (simp add: graph_of_def node_loop_eq edge_loop_eq Digraph_def)
next
  case False
  then have "\<not> list_all renderable resp" using renderable_ids by blast
  with False show ?thesis by (simp add: graph_of_def node_loop_eq)
qed

lemma graph_of_Inr:
  "graph_of resp = Inr g \<Longrightarrow> g = map node_of resp @ concat (map edges_of resp)"
  by (simp add: graph_of_eq split: if_splits)

lemma Edge_in_graph:
  "graph_of resp = Inr g \<Longrightarrow>
   (Edge a b \<in> set g) =
     (\<exists>user \<in> set resp. \<exists>friend_id \<in> set (friends user).
         friend_id > id' user \<and> a = decimal (id' user) \<and> b = decimal friend_id)"
proof -
  assume "graph_of resp = Inr g"
  then have g: "g = map node_of resp @ concat (map edges_of resp)"
    by (rule graph_of_Inr)
  show ?thesis
    unfolding g by (auto simp: edges_of_def node_of_def)
qed

lemma edge_added_iff:
  "graph_of resp = Inr g \<Longrightarrow> user \<in> set resp \<Longrightarrow> friend_id \<in> set (friends user) \<Longrightarrow>
   (Edge (decimal (id' user)) (decimal friend_id) \<in> set g) = (friend_id > id' user)"
  by (auto simp: Edge_in_graph)

lemma no_self_edge: "graph_of resp = Inr g \<Longrightarrow> Edge a a \<notin> set g"
  by (auto simp: Edge_in_graph)

lemma one_direction:
  "graph_of resp = Inr g \<Longrightarrow> Edge a b \<in> set g \<Longrightarrow> Edge b a \<notin> set g"
  by (auto simp: Edge_in_graph)

lemma distinct_edges_of: "distinct (friends user) \<Longrightarrow> distinct (edges_of user)"
  by (simp add: edges_of_def distinct_map inj_on_def)

lemma edges_of_disjoint:
  "id' u \<noteq> id' v \<Longrightarrow> set (edges_of u) \<inter> set (edges_of v) = {}"
  by (auto simp: edges_of_def)

lemma distinct_edge_loop:
  "distinct (map id' resp) \<Longrightarrow> list_all (\<lambda>user. distinct (friends user)) resp \<Longrightarrow>
   distinct (concat (map edges_of resp))"
proof (induction resp)
  case Nil
  then show ?case by simp
next
  case (Cons u resp)
  have "set (edges_of u) \<inter> set (edges_of v) = {}" if "v \<in> set resp" for v
  proof -
    from Cons.prems(1) that have "id' u \<noteq> id' v" by auto
    then show ?thesis by (rule edges_of_disjoint)
  qed
  with Cons show ?case by (auto simp: distinct_edges_of)
qed

lemma distinct_filter_eq_le_one: "distinct xs \<Longrightarrow> length (filter (\<lambda>s. s = e) xs) \<le> 1"
  by (induction xs) (auto simp: filter_empty_conv)

lemma at_most_one_edge:
  assumes "graph_of resp = Inr g"
    and "distinct (map id' resp)" and "list_all (\<lambda>user. distinct (friends user)) resp"
  shows "edges_between a b g \<le> 1"
proof -
  let ?E = "concat (map edges_of resp)"
  let ?P = "\<lambda>s. s = Edge a b \<or> s = Edge b a"
  have g: "g = map node_of resp @ ?E"
    using assms(1) by (rule graph_of_Inr)
  have d: "distinct ?E"
    using distinct_edge_loop [OF assms(2,3)] .
  have one: "length (filter (\<lambda>s. s = e) ?E) \<le> 1" for e
    using d by (rule distinct_filter_eq_le_one)
  have nodes: "filter ?P (map node_of resp) = []"
    by (auto simp: filter_empty_conv node_of_def)
  have count: "edges_between a b g = length (filter ?P ?E)"
    by (simp only: edges_between_def g filter_append nodes append_Nil)
  have in_E: "(Edge x y \<in> set ?E) = (Edge x y \<in> set g)" for x y
    by (auto simp: g node_of_def)
  show ?thesis
  proof (cases "Edge a b \<in> set ?E")
    case True
    then have "Edge a b \<in> set g"
      using in_E [of a b] by blast
    then have "Edge b a \<notin> set g"
      using assms(1) one_direction by blast
    then have "Edge b a \<notin> set ?E"
      using in_E [of b a] by blast
    then have "filter ?P ?E = filter (\<lambda>s. s = Edge a b) ?E"
      by (intro filter_cong) auto
    with one count show ?thesis by simp
  next
    case False
    then have "filter ?P ?E = filter (\<lambda>s. s = Edge b a) ?E"
      by (intro filter_cong) auto
    with one count show ?thesis by simp
  qed
qed

text \<open>
  C4, as amended. In the graph-rendering cell, for every user u of the reply and every
  friend identifier f in u.friends, the graph has an edge from u.id to f if and only if
  f > u.id. The friends loop never adds a self-edge, and never draws an edge in both
  directions between two identifiers. When the users of the reply have distinct ids and
  no friends list repeats an identifier, at most one edge is drawn between any two
  identifiers. The loops build the graph unless a number they render (the id of a user,
  or a friend id greater than that of its user) has more than 4300 digits; then
  \<^verbatim>\<open>str\<close> raises ValueError and no graph is built.
\<close>

theorem edges_only_to_greater_friends:
  "((graph_of resp :: 'e exn + digraph) = Inr g \<longrightarrow>
      (user \<in> set resp \<and> friend_id \<in> set (friends user) \<longrightarrow>
         (Edge (decimal (id' user)) (decimal friend_id) \<in> set g) = (friend_id > id' user))
      \<and> Edge a a \<notin> set g
      \<and> (Edge a b \<in> set g \<longrightarrow> Edge b a \<notin> set g)
      \<and> (distinct (map id' resp) \<and> list_all (\<lambda>user. distinct (friends user)) resp \<longrightarrow>
           edges_between a b g \<le> 1))
   \<and> (graph_of resp :: 'e exn + digraph)
       = (if list_all renderable resp
          then Inr (map node_of resp @ concat (map edges_of resp)) else Inl ValueError)"
  using edge_added_iff [of resp g user friend_id] no_self_edge [of resp g a]
    one_direction [of resp g a b] at_most_one_edge [of resp g a b] graph_of_eq [of resp]
  by blast

theorem edges_only_to_greater_friends_witness:
  "(graph_of five_kids :: unit exn + digraph)
     = Inr (map node_of five_kids @ concat (map edges_of five_kids))
   \<and> \<lparr>id' = 2, name' = ''Hermione Granger'', friends = [1, 3, 4, 5]\<rparr> \<in> set five_kids
   \<and> Edge ''2'' ''3'' \<in> set (map node_of five_kids @ concat (map edges_of five_kids))
   \<and> Edge ''2'' ''1'' \<notin> set (map node_of five_kids @ concat (map edges_of five_kids))
   \<and> Edge ''3'' ''2'' \<notin> set (map node_of five_kids @ concat (map edges_of five_kids))
   \<and> distinct (map id' five_kids)
   \<and> list_all (\<lambda>user. distinct (friends user)) five_kids
   \<and> edges_between ''2'' ''3'' (map node_of five_kids @ concat (map edges_of five_kids)) \<le> 1"
proof -
  let ?g = "map node_of five_kids @ concat (map edges_of five_kids)"
  let ?u = "\<lparr>id' = 2, name' = ''Hermione Granger'', friends = [1, 3, 4, 5]\<rparr>"
  have ids: "distinct (map id' five_kids)"
    and fs: "list_all (\<lambda>user. distinct (friends user)) five_kids"
    and u: "?u \<in> set five_kids"
    by (simp_all add: five_kids_def)
  have r: "list_all renderable five_kids"
    by (simp add: five_kids_def renderable_def within_limit_def max_str_digits_def
          str_nat_lt10)
  have s1: "decimal 1 = ''1''" and s2: "decimal 2 = ''2''" and s3: "decimal 3 = ''3''"
    by (simp_all add: decimal_def str_nat_lt10 digit_char_def)
  note thm23 = edges_only_to_greater_friends
    [where resp = five_kids and g = ?g and user = ?u and friend_id = 3
       and a = "''2''" and b = "''3''" and 'e = unit]
  note thm21 = edges_only_to_greater_friends
    [where resp = five_kids and g = ?g and user = ?u and friend_id = 1
       and a = "''2''" and b = "''1''" and 'e = unit]
  from thm23 r have g: "(graph_of five_kids :: unit exn + digraph) = Inr ?g"
    by simp
  have f3: "3 \<in> set (friends ?u)" and f1: "1 \<in> set (friends ?u)"
    and gt: "3 > id' ?u" and le: "\<not> 1 > id' ?u"
    by simp_all
  from thm23 g u f3 gt have "Edge (decimal (id' ?u)) (decimal 3) \<in> set ?g"
    by blast
  then have a: "Edge ''2'' ''3'' \<in> set ?g"
    by (simp only: s2 s3 Character_rel.select_convs)
  from thm23 g a have b: "Edge ''3'' ''2'' \<notin> set ?g"
    by blast
  from thm23 g ids fs have c: "edges_between ''2'' ''3'' ?g \<le> 1"
    by blast
  from thm21 g u f1 le have "Edge (decimal (id' ?u)) (decimal 1) \<notin> set ?g"
    by blast
  then have d: "Edge ''2'' ''1'' \<notin> set ?g"
    by (simp only: s1 s2 Character_rel.select_convs not_False_eq_True)
  from g a b c d u ids fs show ?thesis by blast
qed

text \<open>
  C4 as stated fails where a friends list repeats an identifier: the loop draws the
  edge once for each occurrence.
\<close>

theorem repeated_friend_two_edges:
  "(graph_of [\<lparr>id' = 1, name' = ''Harry Potter'', friends = [2, 2]\<rparr>] :: unit exn + digraph)
     = Inr [Node ''1'' ''Harry Potter'', Edge ''1'' ''2'', Edge ''1'' ''2'']
   \<and> edges_between ''1'' ''2''
        [Node ''1'' ''Harry Potter'', Edge ''1'' ''2'', Edge ''1'' ''2''] = 2"
  by (simp add: edges_between_def graph_of_def Digraph_def edge_def node_def str_int_eval)

section \<open>Descriptions are not validators\<close>

lemma Property_dict_valid: "validate Property_model (Property_dict p) = Valid (Property_obj p)"
  by (cases p)
     (simp add: Property_model_def Property_dict_def Property_obj_def Field_def within_def)

lemma Property_dicts_valid:
  "validate_all Property_model (map Property_dict ps) = Valid (map Property_obj ps)"
  by (induction ps) (simp_all add: Property_dict_valid)

lemma Property_indexed_dict_valid:
  "validate Property_indexed_model (Property_indexed_dict p) = Valid (Property_indexed_obj p)"
  by (cases p)
     (simp add: Property_indexed_model_def Property_indexed_dict_def Property_indexed_obj_def
        Field_def within_def)

lemma Property_indexed_dicts_valid:
  "validate_all Property_indexed_model (map Property_indexed_dict ps)
     = Valid (map Property_indexed_obj ps)"
  by (induction ps) (simp_all add: Property_indexed_dict_valid)

lemma Character_properties_valid:
  "h \<in> set [''Gryffindor'', ''Hufflepuff'', ''Ravenclaw'', ''Slytherin''] \<Longrightarrow>
   Character_properties a n h (map Property_dict ps)
     = Valid (Character_obj a n h (map Property_obj ps))"
  by (simp add: Character_properties_def Character_properties_model_def house_literal_def
        Field_def within_def Property_dicts_valid Character_obj_def)

lemma Character_five_valid:
  "h \<in> set [''Gryffindor'', ''Hufflepuff'', ''Ravenclaw'', ''Slytherin''] \<Longrightarrow>
   Character_five a n h (map Property_indexed_dict ps)
     = Valid (Character_obj a n h (map Property_indexed_obj ps))"
  by (simp add: Character_five_def Character_five_model_def house_literal_def
        Field_def within_def Property_indexed_dicts_valid Character_obj_def)

text \<open>
  A declaration that did give a pattern or a length would be enforced: the same key and
  the same list are refused then.
\<close>

lemma declared_pattern_is_enforced:
  "validate
     (TModel ''Property''
        [(''key'', TStr, Field\<lparr>pattern := Some snake_case\<rparr>), (''value'', TStr, Field)])
     (ADict [(''key'', AStr ''Full Name''), (''value'', AStr ''Severus Snape'')])
   = Invalid (Constraint ''key'')"
  by (simp add: Field_def within_def snake_case_def char_case_defs)

lemma declared_length_is_enforced:
  "validate
     (TModel ''Character''
        [(''properties'', TList Property_model,
            Field\<lparr>min_length := Some 5, max_length := Some 5\<rparr>)])
     (ADict [(''properties'', AList [])])
   = Invalid (Constraint ''properties'')"
  by (simp add: Field_def within_def)

text \<open>
  Where the library would convert, the model is silent.
\<close>

lemma conversions_are_unmodelled:
  "validate Character_literal_model
     (ADict [(''age'', AStr ''17''), (''name'', AStr ''Harry Potter''),
             (''house'', AStr ''Gryffindor'')])
   = Unmodelled"
  by (simp add: Character_literal_model_def)

text \<open>
  C2. The schema declarations enforce nothing beyond the types: constructing a Property
  succeeds for every key, snake case or not, and constructing a Character succeeds for
  every list of properties, of five elements or not, because "Must be snake case" and
  "should be exactly 5" are descriptions and no length or pattern is declared.
\<close>

theorem descriptions_do_not_validate:
  "Property k v = Valid (Property_obj (k, v))
   \<and> Property_indexed i k v = Valid (Property_indexed_obj (i, k, v))
   \<and> (h \<in> set [''Gryffindor'', ''Hufflepuff'', ''Ravenclaw'', ''Slytherin''] \<longrightarrow>
        Character_properties a n h (map Property_dict kvs)
          = Valid (Character_obj a n h (map Property_obj kvs))
        \<and> Character_five a n h (map Property_indexed_dict ps)
          = Valid (Character_obj a n h (map Property_indexed_obj ps)))"
proof -
  have "Property k v = Valid (Property_obj (k, v))"
    using Property_dict_valid [of "(k, v)"] by (simp add: Property_def Property_dict_def)
  moreover have "Property_indexed i k v = Valid (Property_indexed_obj (i, k, v))"
    using Property_indexed_dict_valid [of "(i, k, v)"]
    by (simp add: Property_indexed_def Property_indexed_dict_def)
  ultimately show ?thesis
    using Character_properties_valid [of h a n kvs] Character_five_valid [of h a n ps]
    by blast
qed

theorem descriptions_do_not_validate_witness:
  "\<not> snake_case ''Full Name''
   \<and> Property ''Full Name'' ''Severus Snape''
       = Valid (VObj ''Property'' [(''key'', VStr ''Full Name''), (''value'', VStr ''Severus Snape'')])
   \<and> Property_indexed ''1'' ''Full Name'' ''Severus Snape''
       = Valid (VObj ''Property'' [(''index'', VStr ''1''), (''key'', VStr ''Full Name''),
                                 (''value'', VStr ''Severus Snape'')])
   \<and> ''Slytherin'' \<in> set [''Gryffindor'', ''Hufflepuff'', ''Ravenclaw'', ''Slytherin'']
   \<and> length [(''1'', ''patronus'', ''Doe'')] \<noteq> 5
   \<and> Character_properties 38 ''Severus Snape'' ''Slytherin'' []
       = Valid (Character_obj 38 ''Severus Snape'' ''Slytherin'' [])
   \<and> Character_five 38 ''Severus Snape'' ''Slytherin''
         [ADict [(''index'', AStr ''1''), (''key'', AStr ''patronus''), (''value'', AStr ''Doe'')]]
       = Valid (Character_obj 38 ''Severus Snape'' ''Slytherin''
               [VObj ''Property'' [(''index'', VStr ''1''), (''key'', VStr ''patronus''),
                                   (''value'', VStr ''Doe'')]])"
proof -
  have ns: "\<not> snake_case ''Full Name''"
    by (simp add: snake_case_def char_case_defs)
  from descriptions_do_not_validate
    [of "''Full Name''" "''Severus Snape''" "''1''" "''Slytherin''" 38 "''Severus Snape''"
        "[]" "[(''1'', ''patronus'', ''Doe'')]"]
  show ?thesis
    using ns by (simp add: Property_obj_def Property_indexed_obj_def Property_indexed_dict_def)
qed

section \<open>The patterns that the notebooks demonstrate\<close>

text \<open>
  C6. The notebooks hold a classification schema (the house field of Character is
  constrained by an enum in one declaration and by a literal in the next), a
  nested-object extraction schema (Character has a list of Property), a list-generation
  schema (a request whose response model is Iterable[Character]) and a
  query-decomposition schema (QueryPlan has a list of Question, and a Question has an
  integer id and a list of integer subquestion identifiers).
\<close>

theorem notebooks_demonstrate_patterns:
  "field_type Character_enum_model ''house'' = Some House_enum
   \<and> constrained_choice House_enum
   \<and> field_type Character_literal_model ''house'' = Some house_literal
   \<and> constrained_choice house_literal
   \<and> field_type Character_properties_model ''properties'' = Some (TList Property_model)
   \<and> field_type Character_five_model ''properties'' = Some (TList Property_indexed_model)
   \<and> response_model request_multiple_entities = TIterable Character_literal_model
   \<and> response_model request_multiple_entities_stream = TIterable Character_literal_model
   \<and> response_model request_query_plan = QueryPlan_model
   \<and> field_type QueryPlan_model ''plan'' = Some (TList Question_model)
   \<and> field_type Question_model ''id'' = Some TInt
   \<and> field_type Question_model ''subquestions'' = Some (TList TInt)"
  by (simp add: Character_enum_model_def Character_literal_model_def
        Character_properties_model_def Character_five_model_def QueryPlan_model_def
        Question_model_def House_enum_def house_literal_def request_multiple_entities_def
        request_multiple_entities_stream_def request_query_plan_def)

section \<open>The cells and their calls\<close>

lemmas cell_defs =
  cell_classification_enum_def cell_classification_literal_def
  cell_arbitrary_properties_def cell_limited_properties_def cell_multiple_entities_def
  cell_multiple_entities_stream_def cell_relationships_def cell_graph_def
  cell_extractions_def cell_query_def cell_query_cot_def cell_retrival_today_def
  cell_retrival_meetings_def cell_query_plan_def

lemma for_each_eq: "for_each body xs nb = nb\<lparr>shown := shown nb @ map body xs\<rparr>"
  by (induction xs arbitrary: nb) (simp_all add: emit_def)

text \<open>
  C7. No cell has an exception handler, a retry loop or a fallback around its call: in
  every cell that calls the client, an exception raised by the call leaves the cell after
  that one request, with nothing shown; a call that returns lets the cell end normally,
  and where the result is a generator the cell ends as the generator does, with the
  exception the library raised during the iteration if there is one. The graph cell,
  whose loops render numbers after the call has returned, ends as its loops do.
\<close>

theorem exceptions_leave_the_cell:
  "raise_leaves_cell cell_classification_enum request_classification_enum
   \<and> result_ends_cell cell_classification_enum request_classification_enum
   \<and> raise_leaves_cell cell_classification_literal request_classification_literal
   \<and> result_ends_cell cell_classification_literal request_classification_literal
   \<and> raise_leaves_cell cell_arbitrary_properties request_arbitrary_properties
   \<and> result_ends_cell cell_arbitrary_properties request_arbitrary_properties
   \<and> raise_leaves_cell cell_limited_properties request_limited_properties
   \<and> result_ends_cell cell_limited_properties request_limited_properties
   \<and> raise_leaves_cell cell_multiple_entities request_multiple_entities
   \<and> result_ends_cell cell_multiple_entities request_multiple_entities
   \<and> raise_leaves_cell cell_multiple_entities_stream request_multiple_entities_stream
   \<and> generator_ends_cell cell_multiple_entities_stream request_multiple_entities_stream
   \<and> raise_leaves_cell cell_relationships request_relationships
   \<and> generator_ends_cell cell_relationships request_relationships
   \<and> raise_leaves_cell cell_graph request_graph
   \<and> result_ends_cell_as cell_graph request_graph
       (\<lambda>resp. case graph_of resp of Inl e \<Rightarrow> Some e | Inr dot \<Rightarrow> None)
   \<and> raise_leaves_cell cell_extractions request_extractions
   \<and> generator_ends_cell cell_extractions request_extractions
   \<and> raise_leaves_cell (cell_query today) (request_query today)
   \<and> result_ends_cell (cell_query today) (request_query today)
   \<and> raise_leaves_cell (cell_query_cot today) (request_query_cot today)
   \<and> result_ends_cell (cell_query_cot today) (request_query_cot today)
   \<and> raise_leaves_cell (cell_retrival_today today) (request_retrival_today today)
   \<and> result_ends_cell (cell_retrival_today today) (request_retrival_today today)
   \<and> raise_leaves_cell (cell_retrival_meetings today) (request_retrival_meetings today)
   \<and> result_ends_cell (cell_retrival_meetings today) (request_retrival_meetings today)
   \<and> raise_leaves_cell cell_query_plan request_query_plan
   \<and> result_ends_cell cell_query_plan request_query_plan"
  by (simp add: raise_leaves_cell_def result_ends_cell_def result_ends_cell_as_def
        generator_ends_cell_def cell_defs create_def for_each_yielded_def graph_of_def
        split: sum.split)

theorem exceptions_leave_the_cell_witness:
  "cell_retrival_today \<lparr>year = 2023, month = 11, day = 18\<rparr> (\<lambda>req. Inl ''APITimeoutError'')
       \<lparr>requests = [], shown = []\<rparr>
     = (Some ''APITimeoutError'',
        \<lparr>requests = [request_retrival_today \<lparr>year = 2023, month = 11, day = 18\<rparr>], shown = []\<rparr>)
   \<and> fst (cell_retrival_today \<lparr>year = 2023, month = 11, day = 18\<rparr> (\<lambda>req. Inr ''parsed'')
            \<lparr>requests = [], shown = []\<rparr>) = (None :: string option)
   \<and> fst (cell_relationships (\<lambda>req. Inr ([''Harry Potter''], Some ''ValidationError''))
            \<lparr>requests = [], shown = []\<rparr>) = Some ''ValidationError''"
proof -
  let ?d = "\<lparr>year = 2023, month = 11, day = 18\<rparr>"
  let ?nb = "\<lparr>requests = [], shown = []\<rparr>"
  note all = exceptions_leave_the_cell [of ?d]
  from all have "raise_leaves_cell (cell_retrival_today ?d) (request_retrival_today ?d)"
    by (elim conjE)
  from this [unfolded raise_leaves_cell_def, rule_format,
      where client = "\<lambda>req. Inl ''APITimeoutError''" and e = "''APITimeoutError''" and nb = ?nb]
  have a: "cell_retrival_today ?d (\<lambda>req. Inl ''APITimeoutError'') ?nb
     = (Some ''APITimeoutError'', \<lparr>requests = [request_retrival_today ?d], shown = []\<rparr>)"
    by simp
  from all have "result_ends_cell (cell_retrival_today ?d) (request_retrival_today ?d)"
    by (elim conjE)
  from this [unfolded result_ends_cell_def, rule_format,
      where client = "\<lambda>req. Inr ''parsed''" and r = "''parsed''" and nb = ?nb]
  have b: "fst (cell_retrival_today ?d (\<lambda>req. Inr ''parsed'') ?nb) = (None :: string option)"
    by simp
  from all have "generator_ends_cell cell_relationships request_relationships"
    by (elim conjE)
  from this [unfolded generator_ends_cell_def, rule_format,
      where client = "\<lambda>req. Inr ([''Harry Potter''], Some ''ValidationError'')"
        and gen = "([''Harry Potter''], Some ''ValidationError'')" and nb = ?nb]
  have c: "fst (cell_relationships (\<lambda>req. Inr ([''Harry Potter''], Some ''ValidationError'')) ?nb)
     = Some ''ValidationError''"
    by simp
  from a b c show ?thesis by simp
qed

text \<open>
  Every cell that calls the client adds exactly its one request to the requests issued,
  whatever the client answers; run one after the other, the two Retrival cells issue
  their requests in that order.
\<close>

lemma one_request_per_cell:
  "one_request cell_classification_enum request_classification_enum
   \<and> one_request cell_classification_literal request_classification_literal
   \<and> one_request cell_arbitrary_properties request_arbitrary_properties
   \<and> one_request cell_limited_properties request_limited_properties
   \<and> one_request cell_multiple_entities request_multiple_entities
   \<and> one_request cell_multiple_entities_stream request_multiple_entities_stream
   \<and> one_request cell_relationships request_relationships
   \<and> one_request cell_graph request_graph
   \<and> one_request cell_extractions request_extractions
   \<and> one_request (cell_query today) (request_query today)
   \<and> one_request (cell_query_cot today) (request_query_cot today)
   \<and> one_request (cell_retrival_today today) (request_retrival_today today)
   \<and> one_request (cell_retrival_meetings today) (request_retrival_meetings today)
   \<and> one_request cell_query_plan request_query_plan
   \<and> requests (snd (cell_retrival_meetings today client2
                        (snd (cell_retrival_today today client nb))))
       = requests nb @ [request_retrival_today today, request_retrival_meetings today]"
  by (simp add: one_request_def cell_defs create_def emit_def for_each_yielded_def for_each_eq
        split: sum.split)

section \<open>What the cells compute themselves\<close>

text \<open>
  C1, as amended. Beyond passing data structures to the external call and reading its
  result, a code cell only displays that result, with two exceptions that the cell
  computes itself as a deterministic function of the result: the graph cell draws a
  node for each user and, of the friend references of the reply, the edges to a friend
  whose id is greater than the user's; and \<^verbatim>\<open>say_hello\<close> prints a greeting made
  from the fields of the character, with the value of the house title-cased. Neither
  shows anything when \<^verbatim>\<open>str\<close> raises on a number it renders.
\<close>

theorem cells_display_their_reply:
  "shows_of_reply cell_classification_enum request_classification_enum
       (\<lambda>resp. [Out_model_dump resp])
   \<and> shows_of_reply cell_classification_literal request_classification_literal
       (\<lambda>resp. [Out_model_dump resp])
   \<and> shows_of_reply cell_arbitrary_properties request_arbitrary_properties
       (\<lambda>resp. [Out_model_dump resp])
   \<and> shows_of_reply cell_limited_properties request_limited_properties
       (\<lambda>resp. [Out_model_dump resp])
   \<and> shows_of_reply cell_multiple_entities request_multiple_entities
       (\<lambda>resp. map Print_model resp)
   \<and> shows_of_reply cell_multiple_entities_stream request_multiple_entities_stream
       (\<lambda>gen. map Print_model (fst gen))
   \<and> shows_of_reply cell_relationships request_relationships
       (\<lambda>gen. map Print_model (fst gen))
   \<and> shows_of_reply
       (cell_graph :: ('e exn, Character_rel list) client \<Rightarrow> 'v notebook
                        \<Rightarrow> 'e exn option \<times> 'v notebook)
       request_graph
       (\<lambda>resp. case (graph_of resp :: 'e exn + digraph) of
                  Inl e \<Rightarrow> [] | Inr dot \<Rightarrow> [Display_dot dot])
   \<and> shows_of_reply cell_extractions request_extractions
       (\<lambda>gen. map Pprint_model_dump (fst gen))
   \<and> shows_of_reply (cell_query today) (request_query today)
       (\<lambda>resp. [Print_model_dump_json resp 4])
   \<and> shows_of_reply (cell_query_cot today) (request_query_cot today)
       (\<lambda>resp. [Print_model_dump_json resp 4])
   \<and> shows_of_reply (cell_retrival_today today) (request_retrival_today today)
       (\<lambda>resp. [Print_model_dump_json resp 4])
   \<and> shows_of_reply (cell_retrival_meetings today) (request_retrival_meetings today)
       (\<lambda>resp. [Print_model_dump_json resp 4])
   \<and> shows_of_reply cell_query_plan request_query_plan
       (\<lambda>resp. [Print_model_dump_json resp 4])
   \<and> (graph_of resp :: 'e exn + digraph)
       = (if list_all renderable resp
          then Inr (map node_of resp @ concat (map edges_of resp)) else Inl ValueError)
   \<and> cell_say_hello self nb
       = (case str_int (age self) of
            Inl e \<Rightarrow> (Some e, nb)
          | Inr a \<Rightarrow>
              (None, nb\<lparr>shown := shown nb @
                 [Print_str (''Hello, I'm '' @ name self @ '', I'm '' @ a
                             @ '' years old and I'm from ''
                             @ title (House_value (house self)))]\<rparr>))"
proof -
  have graph: "shows_of_reply
       (cell_graph :: ('e exn, Character_rel list) client \<Rightarrow> 'v notebook
                        \<Rightarrow> 'e exn option \<times> 'v notebook)
       request_graph
       (\<lambda>resp. case (graph_of resp :: 'e exn + digraph) of
                  Inl e \<Rightarrow> [] | Inr dot \<Rightarrow> [Display_dot dot])"
    by (simp add: shows_of_reply_def cell_graph_def create_def emit_def graph_of_def
          split: sum.split)
  have hello: "cell_say_hello self nb
       = (case str_int (age self) of
            Inl e \<Rightarrow> (Some e, nb)
          | Inr a \<Rightarrow>
              (None, nb\<lparr>shown := shown nb @
                 [Print_str (''Hello, I'm '' @ name self @ '', I'm '' @ a
                             @ '' years old and I'm from ''
                             @ title (House_value (house self)))]\<rparr>))"
    by (simp add: cell_say_hello_def say_hello_def split: sum.split)
  show ?thesis
    using graph hello graph_of_eq [of resp]
    by (simp add: shows_of_reply_def cell_defs create_def emit_def for_each_yielded_def
          for_each_eq)
qed

theorem cells_display_their_reply_witness:
  "shown (snd (cell_query_plan (\<lambda>req. Inr ''parsed plan'') \<lparr>requests = [], shown = []\<rparr>))
     = [Print_model_dump_json ''parsed plan'' 4]
   \<and> list_all renderable five_kids
   \<and> shown (snd (cell_graph (\<lambda>req. Inr five_kids :: unit exn + Character_rel list)
                 \<lparr>requests = [], shown = []\<rparr>))
     = [Display_dot (map node_of five_kids @ concat (map edges_of five_kids))]"
proof -
  let ?nb = "\<lparr>requests = [], shown = []\<rparr>"
  note all = cells_display_their_reply
    [where today = "\<lparr>year = 2023, month = 11, day = 18\<rparr>" and resp = five_kids
       and self = "\<lparr>age = 17, name = ''Harry Potter'', house = Gryffindor\<rparr>" and nb = ?nb
       and 'e = unit]
  from all have "shows_of_reply cell_query_plan request_query_plan
       (\<lambda>resp. [Print_model_dump_json resp 4])"
    by (elim conjE)
  from this [unfolded shows_of_reply_def, rule_format,
      where client = "\<lambda>req. Inr ''parsed plan''" and r = "''parsed plan''" and nb = ?nb]
  have a: "shown (snd (cell_query_plan (\<lambda>req. Inr ''parsed plan'') ?nb))
     = [Print_model_dump_json ''parsed plan'' 4]"
    by simp
  have r: "list_all renderable five_kids"
    by (simp add: five_kids_def renderable_def within_limit_def max_str_digits_def
          str_nat_lt10)
  from all have "(graph_of five_kids :: unit exn + digraph)
       = (if list_all renderable five_kids
          then Inr (map node_of five_kids @ concat (map edges_of five_kids))
          else Inl ValueError)"
    by (elim conjE)
  with r have g: "(graph_of five_kids :: unit exn + digraph)
       = Inr (map node_of five_kids @ concat (map edges_of five_kids))"
    by simp
  from all have "shows_of_reply
       (cell_graph :: (unit exn, Character_rel list) client \<Rightarrow> 'v notebook
                        \<Rightarrow> unit exn option \<times> 'v notebook)
       request_graph
       (\<lambda>resp. case (graph_of resp :: unit exn + digraph) of
                  Inl e \<Rightarrow> [] | Inr dot \<Rightarrow> [Display_dot dot])"
    by (elim conjE)
  from this [unfolded shows_of_reply_def, rule_format,
      where client = "\<lambda>req. Inr five_kids" and r = five_kids and nb = ?nb]
  have b: "shown (snd (cell_graph (\<lambda>req. Inr five_kids :: unit exn + Character_rel list) ?nb))
     = [Display_dot (map node_of five_kids @ concat (map edges_of five_kids))]"
    by (simp add: g)
  from a r b show ?thesis by simp
qed

text \<open>
  C1 as stated fails at the graph cell: for a reply in which Hermione (id 2) lists
  friend 1, the cell draws the node and no edge, which is not the display of what it
  read.
\<close>

theorem graph_cell_selects_edges:
  "shown (snd (cell_graph
                 (\<lambda>req. Inr [\<lparr>id' = 2, name' = ''Hermione Granger'', friends = [1]\<rparr>]
                    :: unit exn + Character_rel list)
                 \<lparr>requests = [], shown = []\<rparr>))
     = [Display_dot [Node ''2'' ''Hermione Granger'']]
   \<and> friend_references [\<lparr>id' = 2, name' = ''Hermione Granger'', friends = [1]\<rparr>]
     = [Edge ''2'' ''1'']
   \<and> \<not> display_only_graph [\<lparr>id' = 2, name' = ''Hermione Granger'', friends = [1]\<rparr>]
         [Node ''2'' ''Hermione Granger'']"
  by (simp add: cell_graph_def create_def emit_def Digraph_def node_def edge_def
        friend_references_def display_only_graph_def node_of_def str_int_eval)

section \<open>Default lists of fresh instances\<close>

lemma strings_valid: "validate_all TStr (map AStr xs) = Valid (map VStr xs)"
  by (induction xs) simp_all

lemma ints_valid: "validate_all TInt (map AInt xs) = Valid (map VInt xs)"
  by (induction xs) simp_all

text \<open>
  A list field declared without a \<^verbatim>\<open>default_factory\<close> is required: leaving
  it out is an error, and no list is made for it.
\<close>

lemma no_factory_no_default:
  "validate Character_friends_model (ADict [(''id'', AInt i), (''name'', AStr n)])
     = Invalid (Missing ''friends'')
   \<and> default_objects (declared_fields Character_friends_model)
        [(''id'', AInt i), (''name'', AStr n)] st = ([], st)"
  by (simp add: Character_friends_model_def Field_def within_def)

text \<open>
  C9. An Extraction constructed without hypothetical_questions or without keywords, and
  a Question constructed without subquestions, have the empty list in those fields,
  because the declarations give \<^verbatim>\<open>default_factory=list\<close>: the construction is
  not an error and reading the field gives no element. The factory makes a new list
  for each such field of each instance: the lists are not among the objects that existed
  before, the objects that existed before are unchanged, and appending to the list of
  one instance leaves the lists of another instance empty.
\<close>

theorem default_lists_are_fresh_and_empty:
  "Extraction t s None None
     = Valid (VObj ''Extraction''
         [(''topic'', VStr t), (''summary'', VStr s),
          (''hypothetical_questions'', VList []), (''keywords'', VList [])])
   \<and> Extraction t s None (Some (AList (map AStr ks)))
     = Valid (VObj ''Extraction''
         [(''topic'', VStr t), (''summary'', VStr s),
          (''hypothetical_questions'', VList []), (''keywords'', VList (map VStr ks))])
   \<and> Extraction t s (Some (AList (map AStr qs))) None
     = Valid (VObj ''Extraction''
         [(''topic'', VStr t), (''summary'', VStr s),
          (''hypothetical_questions'', VList (map VStr qs)), (''keywords'', VList [])])
   \<and> Question i q None
     = Valid (VObj ''Question''
         [(''id'', VInt i), (''query'', VStr q), (''subquestions'', VList [])])
   \<and> default_objects (declared_fields Extraction_model)
        [(''topic'', AStr t), (''summary'', AStr s)] st
     = ([(''hypothetical_questions'', length st), (''keywords'', Suc (length st))],
        st @ [[], []])
   \<and> default_objects (declared_fields Question_model)
        [(''id'', AInt i), (''query'', AStr q)] st
     = ([(''subquestions'', length st)], st @ [[]])
   \<and> (let (refs1, st1) = default_objects (declared_fields Extraction_model)
                            [(''topic'', AStr t), (''summary'', AStr s)] st;
           (refs2, st2) = default_objects (declared_fields Extraction_model)
                            [(''topic'', AStr t2), (''summary'', AStr s2)] st1;
           st3 = append_to (snd (hd refs1)) v st2 in
        map (\<lambda>(fname, r). (fname, elements st3 r)) refs1
          = [(''hypothetical_questions'', Some [v]), (''keywords'', Some [])]
        \<and> map (\<lambda>(fname, r). (fname, elements st3 r)) refs2
          = [(''hypothetical_questions'', Some []), (''keywords'', Some [])]
        \<and> take (length st) st3 = st)
   \<and> (let (refs1, st1) = default_objects (declared_fields Question_model)
                            [(''id'', AInt i), (''query'', AStr q)] st;
           (refs2, st2) = default_objects (declared_fields Question_model)
                            [(''id'', AInt i2), (''query'', AStr q2)] st1;
           st3 = append_to (snd (hd refs1)) v st2 in
        map (\<lambda>(fname, r). (fname, elements st3 r)) refs1 = [(''subquestions'', Some [v])]
        \<and> map (\<lambda>(fname, r). (fname, elements st3 r)) refs2 = [(''subquestions'', Some [])]
        \<and> take (length st) st3 = st)"
proof -
  have vals: "Extraction t s None None
     = Valid (VObj ''Extraction''
         [(''topic'', VStr t), (''summary'', VStr s),
          (''hypothetical_questions'', VList []), (''keywords'', VList [])])
   \<and> Extraction t s None (Some (AList (map AStr ks)))
     = Valid (VObj ''Extraction''
         [(''topic'', VStr t), (''summary'', VStr s),
          (''hypothetical_questions'', VList []), (''keywords'', VList (map VStr ks))])
   \<and> Extraction t s (Some (AList (map AStr qs))) None
     = Valid (VObj ''Extraction''
         [(''topic'', VStr t), (''summary'', VStr s),
          (''hypothetical_questions'', VList (map VStr qs)), (''keywords'', VList [])])
   \<and> Question i q None
     = Valid (VObj ''Question''
         [(''id'', VInt i), (''query'', VStr q), (''subquestions'', VList [])])"
    by (simp add: Extraction_def Question_def given_def Extraction_model_def
          Question_model_def Field_def within_def strings_valid)
  have objects: "default_objects (declared_fields Extraction_model)
        [(''topic'', AStr t), (''summary'', AStr s)] st
     = ([(''hypothetical_questions'', length st), (''keywords'', Suc (length st))],
        st @ [[], []])
   \<and> default_objects (declared_fields Question_model)
        [(''id'', AInt i), (''query'', AStr q)] st
     = ([(''subquestions'', length st)], st @ [[]])" for t s i q st
    by (simp add: Extraction_model_def Question_model_def Field_def new_list_def)
  have sharing: "(let (refs1, st1) = default_objects (declared_fields Extraction_model)
                            [(''topic'', AStr t), (''summary'', AStr s)] st;
           (refs2, st2) = default_objects (declared_fields Extraction_model)
                            [(''topic'', AStr t2), (''summary'', AStr s2)] st1;
           st3 = append_to (snd (hd refs1)) v st2 in
        map (\<lambda>(fname, r). (fname, elements st3 r)) refs1
          = [(''hypothetical_questions'', Some [v]), (''keywords'', Some [])]
        \<and> map (\<lambda>(fname, r). (fname, elements st3 r)) refs2
          = [(''hypothetical_questions'', Some []), (''keywords'', Some [])]
        \<and> take (length st) st3 = st)
   \<and> (let (refs1, st1) = default_objects (declared_fields Question_model)
                            [(''id'', AInt i), (''query'', AStr q)] st;
           (refs2, st2) = default_objects (declared_fields Question_model)
                            [(''id'', AInt i2), (''query'', AStr q2)] st1;
           st3 = append_to (snd (hd refs1)) v st2 in
        map (\<lambda>(fname, r). (fname, elements st3 r)) refs1 = [(''subquestions'', Some [v])]
        \<and> map (\<lambda>(fname, r). (fname, elements st3 r)) refs2 = [(''subquestions'', Some [])]
        \<and> take (length st) st3 = st)"
    by (simp add: objects elements_def append_to_def nth_append nth_list_update)
  from vals objects [of t s st i q] sharing show ?thesis
    by blast
qed

section \<open>The hooks of the pre-commit configuration\<close>

text \<open>
  C3. The pre-commit configuration has exactly two entries, each delegating to a tool
  hosted elsewhere: the ruff repository at rev v0.1.7 with the hooks ruff (with --fix)
  and ruff-format, and a local entry whose only hook, named "Static Type Check", fetches
  a remote shell script with curl and pipes it to bash, after exporting CUSTOM_PACKAGES
  with exactly the two paths instructor/cli/cli.py and instructor/cli/usage.py; its
  pass_filenames is false.
\<close>

theorem pre_commit_delegates_to_two_tools:
  "repos = [ruff_repo, local_repo]
   \<and> repo ruff_repo = ''https://github.com/astral-sh/ruff-pre-commit''
   \<and> rev' ruff_repo = Some ''v0.1.7''
   \<and> map (\<lambda>h. (id_hook h, args h, entry h)) (hooks ruff_repo)
       = [(''ruff'', [''--fix''], None), (''ruff-format'', [], None)]
   \<and> repo local_repo = ''local''
   \<and> map (\<lambda>h. (name_hook h, pass_filenames h)) (hooks local_repo)
       = [(Some ''Static Type Check'', Some False)]
   \<and> map entry (hooks local_repo) = [Some type_check_entry]
   \<and> map_option split_words (exported ''CUSTOM_PACKAGES'' type_check_entry)
       = Some [''instructor/cli/cli.py'', ''instructor/cli/usage.py'']
   \<and> map_option (last_command \<circ> split_words) (bash_c_script type_check_entry)
       = Some [''curl'', ''-sSL'',
               ''https://raw.githubusercontent.com/gao-hongnan/omniverse/continuous-integration/scripts/devops/continuous-integration/type_mypy.sh'',
               ''|'', ''bash'']"
proof -
  have packages: "map_option split_words (exported ''CUSTOM_PACKAGES'' type_check_entry)
       = Some [''instructor/cli/cli.py'', ''instructor/cli/usage.py'']"
    by (simp add: exported_def type_check_entry_def folded_def split_words_def)
  have pipe: "map_option (last_command \<circ> split_words) (bash_c_script type_check_entry)
       = Some [''curl'', ''-sSL'',
               ''https://raw.githubusercontent.com/gao-hongnan/omniverse/continuous-integration/scripts/devops/continuous-integration/type_mypy.sh'',
               ''|'', ''bash'']"
    by (simp add: bash_c_script_def type_check_entry_def folded_def split_words_def
          last_command_def)
  have "repos = [ruff_repo, local_repo]"
    by (simp add: repos_def)
  moreover have "repo ruff_repo = ''https://github.com/astral-sh/ruff-pre-commit''
      \<and> rev' ruff_repo = Some ''v0.1.7''
      \<and> map (\<lambda>h. (id_hook h, args h, entry h)) (hooks ruff_repo)
          = [(''ruff'', [''--fix''], None), (''ruff-format'', [], None)]"
    by (simp add: ruff_repo_def)
  moreover have "repo local_repo = ''local''
      \<and> map (\<lambda>h. (name_hook h, pass_filenames h)) (hooks local_repo)
          = [(Some ''Static Type Check'', Some False)]
      \<and> map entry (hooks local_repo) = [Some type_check_entry]"
    by (simp add: local_repo_def)
  ultimately show ?thesis
    using packages pipe by blast
qed

end
